theory Spec2Isabelle
  imports Main "HOL-Library.AList"
begin


section \<open>Provider side: the data model of backend/models\<close>

text \<open>
  Times are instants and durations in nanoseconds, as Go's \<open>time.Duration\<close> counts them.
  Every handler reads the clock through the request environment; the calls of \<open>time.Now()\<close>
  within one request are taken as one reading.
\<close>

type_synonym time = int

definition Second :: time where
  "Second = 1000000000"

definition Minute :: time where
  "Minute = 60 * Second"

definition Hour :: time where
  "Hour = 60 * Minute"

text \<open>
  The GORM models of the OAuth tables. Field names carry a prefix per struct, because the Go
  structs share their field names. The auto-increment primary key of a row is its position in
  the table: rows are never deleted, and \<open>First\<close> reads in primary-key order.
\<close>

record OAuthClient =
  cl_ID :: string
  cl_ClientSecret :: string
  cl_Name :: string
  cl_RedirectURIs :: string
  cl_DeletedAt :: "time option"

record OAuthAuthorizationCode =
  ac_Code :: string
  ac_ClientID :: string
  ac_UserID :: nat
  ac_RedirectURI :: string
  ac_Scope :: string
  ac_ExpiresAt :: time
  ac_Used :: bool

record OAuthAccessToken =
  at_Token :: string
  at_ClientID :: string
  at_UserID :: nat
  at_Scope :: string
  at_ExpiresAt :: time

record OAuthRefreshToken =
  rt_Token :: string
  rt_ClientID :: string
  rt_UserID :: nat
  rt_Scope :: string
  rt_ExpiresAt :: time

text \<open>
  Modelled from the spec: \<open>models.User\<close> is not among the sources. \<open>UserInfo\<close> reads the
  subject id, the email and the display name of the owning user, and no more is kept here.
\<close>

record User =
  u_ID :: nat
  u_Email :: string
  u_Name :: string

datatype table = Clients | AuthCodes | AccessTokens | RefreshTokens | Users

datatype db_call = Select table | Insert table | Update table

text \<open>
  The database behind \<open>database.DB\<close>: one list of rows per table, and the log of every
  statement sent to it, oldest first.
\<close>

record store =
  clients :: "OAuthClient list"
  auth_codes :: "OAuthAuthorizationCode list"
  access_tokens :: "OAuthAccessToken list"
  refresh_tokens :: "OAuthRefreshToken list"
  users :: "User list"
  queries :: "db_call list"

definition db_log :: "db_call \<Rightarrow> store \<Rightarrow> store" where
  "db_log c s = s\<lparr>queries := queries s @ [c]\<rparr>"

text \<open>\<open>Where(...).First(&row)\<close>: the first matching row in primary-key order, with its key.\<close>

fun First :: "('a \<Rightarrow> bool) \<Rightarrow> 'a list \<Rightarrow> (nat \<times> 'a) option" where
  "First P [] = None"
| "First P (x # xs) =
     (if P x then Some (0, x)
      else (case First P xs of None \<Rightarrow> None | Some (i, r) \<Rightarrow> Some (Suc i, r)))"

text \<open>
  \<open>Create\<close> fails on a violated unique index (\<open>uniqueIndex\<close> on \<open>Code\<close> and on \<open>Token\<close>);
  the statement is logged either way. The store is reliable otherwise: a statement fails for
  no other reason.
\<close>

definition create_auth_code :: "OAuthAuthorizationCode \<Rightarrow> store \<Rightarrow> store \<times> bool" where
  "create_auth_code r s =
     (let s1 = db_log (Insert AuthCodes) s in
      if ac_Code r \<in> set (map ac_Code (auth_codes s)) then (s1, False)
      else (s1\<lparr>auth_codes := auth_codes s @ [r]\<rparr>, True))"

definition create_access_token :: "OAuthAccessToken \<Rightarrow> store \<Rightarrow> store \<times> bool" where
  "create_access_token r s =
     (let s1 = db_log (Insert AccessTokens) s in
      if at_Token r \<in> set (map at_Token (access_tokens s)) then (s1, False)
      else (s1\<lparr>access_tokens := access_tokens s @ [r]\<rparr>, True))"

definition create_refresh_token :: "OAuthRefreshToken \<Rightarrow> store \<Rightarrow> store \<times> bool" where
  "create_refresh_token r s =
     (let s1 = db_log (Insert RefreshTokens) s in
      if rt_Token r \<in> set (map rt_Token (refresh_tokens s)) then (s1, False)
      else (s1\<lparr>refresh_tokens := refresh_tokens s @ [r]\<rparr>, True))"

text \<open>\<open>DB.Model(&authCode).Update("used", true)\<close>: by primary key; the result is not read.\<close>

definition mark_used :: "nat \<Rightarrow> store \<Rightarrow> store" where
  "mark_used i s =
     (let s1 = db_log (Update AuthCodes) s in
      if i < length (auth_codes s)
      then s1\<lparr>auth_codes := (auth_codes s)[i := (auth_codes s ! i)\<lparr>ac_Used := True\<rparr>]\<rparr>
      else s1)"

section \<open>Responses\<close>

datatype json =
  JNull
| JBool bool
| JNumber int
| JString string
| JArray "json list"
| JObject "(string \<times> json) list"

text \<open>\<open>c.JSON(status, gin.H{...})\<close>: the status and the members of the object.\<close>

type_synonym response = "nat \<times> (string \<times> json) list"

definition field :: "response \<Rightarrow> string \<Rightarrow> json option" where
  "field r k = map_of (snd r) k"

text \<open>
  What the environment supplies to one request: the clock, and the results of the first and
  the second call of \<open>utils.GenerateRandomToken(32)\<close> (\<open>None\<close> is its error). The
  \<open>utils\<close> package is not among the sources, and nothing is assumed about the tokens it
  returns. The authenticated user that the middleware leaves in the context under
  \<open>user_id\<close> is an argument of the handler that reads it.
\<close>

record env =
  Now :: time
  Rand1 :: "string option"
  Rand2 :: "string option"

section \<open>Request binding\<close>

text \<open>
  The text of a failed \<open>binding:"required"\<close> check, one line per field, as the validator
  prints it.
\<close>

definition required_msg :: "string \<Rightarrow> string" where
  "required_msg f =
     ''Key: '' @ [CHR 0x27] @ f @ [CHR 0x27] @ '' Error:Field validation for '' @ [CHR 0x27] @ f
       @ [CHR 0x27] @ '' failed on the '' @ [CHR 0x27] @ ''required'' @ [CHR 0x27] @ '' tag''"

fun join_lines :: "string list \<Rightarrow> string" where
  "join_lines [] = []"
| "join_lines [x] = x"
| "join_lines (x # y # ys) = x @ [CHR 0x0A] @ join_lines (y # ys)"

definition missing_required :: "(string \<times> string) list \<Rightarrow> string list" where
  "missing_required fs = map fst (filter (\<lambda>(f, v). v = []) fs)"

record consent_req =
  cr_ClientID :: string
  cr_RedirectURI :: string
  cr_Scope :: string
  cr_State :: string
  cr_Approved :: bool

record token_req =
  tr_GrantType :: string
  tr_Code :: string
  tr_RedirectURI :: string
  tr_ClientID :: string
  tr_ClientSecret :: string
  tr_RefreshToken :: string

definition bind_consent :: "consent_req \<Rightarrow> string list" where
  "bind_consent req =
     missing_required [(''ClientID'', cr_ClientID req), (''RedirectURI'', cr_RedirectURI req)]"

definition bind_token :: "token_req \<Rightarrow> string list" where
  "bind_token req =
     missing_required [(''GrantType'', tr_GrantType req), (''ClientID'', tr_ClientID req),
       (''ClientSecret'', tr_ClientSecret req)]"

section \<open>controllers/oauth\_controller.go\<close>

definition AuthorizeConsent :: "env \<Rightarrow> nat option \<Rightarrow> consent_req \<Rightarrow> store \<Rightarrow> store \<times> response" where
  "AuthorizeConsent e user_id req s =
     (if bind_consent req \<noteq> []
      then (s, (400, [(''error'', JString (join_lines (map required_msg (bind_consent req))))]))
      else (case user_id of
        None \<Rightarrow> (s, (401, [(''error'', JString ''User not authenticated'')]))
      | Some userID \<Rightarrow>
          (if \<not> cr_Approved req
           then (s, (200, [(''redirect_url'',
                   JString (cr_RedirectURI req @ ''?error=access_denied&state='' @ cr_State req))]))
           else (case Rand1 e of
             None \<Rightarrow> (s, (500, [(''error'', JString ''Failed to generate code'')]))
           | Some code \<Rightarrow>
               (let authCode = \<lparr>ac_Code = code, ac_ClientID = cr_ClientID req, ac_UserID = userID,
                      ac_RedirectURI = cr_RedirectURI req, ac_Scope = cr_Scope req,
                      ac_ExpiresAt = Now e + 10 * Minute, ac_Used = False\<rparr>;
                    (s1, created) = create_auth_code authCode s
                in if \<not> created
                   then (s1, (500, [(''error'', JString ''Failed to create authorization code'')]))
                   else (s1, (200, [(''redirect_url'',
                           JString (cr_RedirectURI req @ ''?code='' @ code
                             @ (if cr_State req \<noteq> [] then ''&state='' @ cr_State req
                                else [])))])))))))"

text \<open>The client lookup of \<open>Token\<close>; a soft-deleted client is not found.\<close>

definition find_client :: "string \<Rightarrow> string \<Rightarrow> store \<Rightarrow> store \<times> (nat \<times> OAuthClient) option" where
  "find_client clientID clientSecret s =
     (db_log (Select Clients) s,
      First (\<lambda>c. cl_ID c = clientID \<and> cl_ClientSecret c = clientSecret \<and> cl_DeletedAt c = None)
        (clients s))"

text \<open>
  \<open>handleAuthorizationCodeGrant\<close> sends the database two statements one after the other: the
  select of lines 193-194, then the update of line 200 followed by the two inserts. They are
  two definitions, composed in the handler.
\<close>

definition code_matches :: "time \<Rightarrow> string \<Rightarrow> string \<Rightarrow> string \<Rightarrow> OAuthAuthorizationCode \<Rightarrow> bool" where
  "code_matches now code clientID redirectURI r \<longleftrightarrow>
     ac_Code r = code \<and> ac_ClientID r = clientID \<and> ac_RedirectURI r = redirectURI
     \<and> ac_Used r = False \<and> ac_ExpiresAt r > now"

definition find_auth_code ::
  "env \<Rightarrow> string \<Rightarrow> string \<Rightarrow> string \<Rightarrow> store \<Rightarrow> store \<times> (nat \<times> OAuthAuthorizationCode) option" where
  "find_auth_code e code redirectURI clientID s =
     (db_log (Select AuthCodes) s,
      First (code_matches (Now e) code clientID redirectURI) (auth_codes s))"

definition server_error :: response where
  "server_error = (500, [(''error'', JString ''server_error'')])"

definition invalid_grant :: response where
  "invalid_grant = (400, [(''error'', JString ''invalid_grant'')])"

definition issue_tokens :: "env \<Rightarrow> string \<Rightarrow> nat \<times> OAuthAuthorizationCode \<Rightarrow> store \<Rightarrow> store \<times> response" where
  "issue_tokens e clientID hit s =
     (let authCode = snd hit;
          s1 = mark_used (fst hit) s
      in (case Rand1 e of
          None \<Rightarrow> (s1, server_error)
        | Some accessToken \<Rightarrow>
            (case Rand2 e of
               None \<Rightarrow> (s1, server_error)
             | Some refreshToken \<Rightarrow>
                 (let accessTokenModel = \<lparr>at_Token = accessToken, at_ClientID = clientID,
                        at_UserID = ac_UserID authCode, at_Scope = ac_Scope authCode,
                        at_ExpiresAt = Now e + 1 * Hour\<rparr>;
                      refreshTokenModel = \<lparr>rt_Token = refreshToken, rt_ClientID = clientID,
                        rt_UserID = ac_UserID authCode, rt_Scope = ac_Scope authCode,
                        rt_ExpiresAt = Now e + 30 * 24 * Hour\<rparr>;
                      (s2, created) = create_access_token accessTokenModel s1
                  in if \<not> created then (s2, server_error)
                     else (let (s3, created) = create_refresh_token refreshTokenModel s2
                           in if \<not> created then (s3, server_error)
                              else (s3, (200, [(''access_token'', JString accessToken),
                                     (''token_type'', JString ''Bearer''),
                                     (''expires_in'', JNumber 3600),
                                     (''refresh_token'', JString refreshToken),
                                     (''scope'', JString (ac_Scope authCode))])))))))"

definition handleAuthorizationCodeGrant ::
  "env \<Rightarrow> string \<Rightarrow> string \<Rightarrow> string \<Rightarrow> store \<Rightarrow> store \<times> response" where
  "handleAuthorizationCodeGrant e code redirectURI clientID s =
     (let (s1, found) = find_auth_code e code redirectURI clientID s in
      (case found of
        None \<Rightarrow> (s1, invalid_grant)
      | Some hit \<Rightarrow> issue_tokens e clientID hit s1))"

definition refresh_matches :: "time \<Rightarrow> string \<Rightarrow> string \<Rightarrow> OAuthRefreshToken \<Rightarrow> bool" where
  "refresh_matches now refreshToken clientID r \<longleftrightarrow>
     rt_Token r = refreshToken \<and> rt_ClientID r = clientID \<and> rt_ExpiresAt r > now"

definition handleRefreshTokenGrant :: "env \<Rightarrow> string \<Rightarrow> string \<Rightarrow> store \<Rightarrow> store \<times> response" where
  "handleRefreshTokenGrant e refreshToken clientID s =
     (let s1 = db_log (Select RefreshTokens) s in
      (case First (refresh_matches (Now e) refreshToken clientID) (refresh_tokens s) of
        None \<Rightarrow> (s1, invalid_grant)
      | Some hit \<Rightarrow>
          (let refreshTokenModel = snd hit in
           (case Rand1 e of
             None \<Rightarrow> (s1, server_error)
           | Some accessToken \<Rightarrow>
               (let accessTokenModel = \<lparr>at_Token = accessToken, at_ClientID = clientID,
                      at_UserID = rt_UserID refreshTokenModel,
                      at_Scope = rt_Scope refreshTokenModel,
                      at_ExpiresAt = Now e + 1 * Hour\<rparr>;
                    (s2, created) = create_access_token accessTokenModel s1
                in if \<not> created then (s2, server_error)
                   else (s2, (200, [(''access_token'', JString accessToken),
                          (''token_type'', JString ''Bearer''),
                          (''expires_in'', JNumber 3600),
                          (''scope'', JString (rt_Scope refreshTokenModel))])))))))"

definition Token :: "env \<Rightarrow> token_req \<Rightarrow> store \<Rightarrow> store \<times> response" where
  "Token e req s =
     (if bind_token req \<noteq> []
      then (s, (400, [(''error'', JString ''invalid_request''),
                 (''error_description'', JString (join_lines (map required_msg (bind_token req))))]))
      else (let (s1, found) = find_client (tr_ClientID req) (tr_ClientSecret req) s in
        (case found of
          None \<Rightarrow> (s1, (401, [(''error'', JString ''invalid_client'')]))
        | Some client \<Rightarrow>
            (if tr_GrantType req = ''authorization_code''
             then handleAuthorizationCodeGrant e (tr_Code req) (tr_RedirectURI req)
                    (tr_ClientID req) s1
             else if tr_GrantType req = ''refresh_token''
             then handleRefreshTokenGrant e (tr_RefreshToken req) (tr_ClientID req) s1
             else (s1, (400, [(''error'', JString ''unsupported_grant_type'')]))))))"

text \<open>\<open>strings.Split(s, sep)\<close> for a separator of one byte.\<close>

fun Split :: "string \<Rightarrow> char \<Rightarrow> string list" where
  "Split [] sep = [[]]"
| "Split (c # cs) sep =
     (if c = sep then [] # Split cs sep
      else (let r = Split cs sep in (c # hd r) # tl r))"

definition token_live :: "time \<Rightarrow> string \<Rightarrow> OAuthAccessToken \<Rightarrow> bool" where
  "token_live now token r \<longleftrightarrow> at_Token r = token \<and> at_ExpiresAt r > now"

text \<open>
  \<open>Preload("User")\<close> reads the owning user with a second select; a token whose user row is
  missing keeps the zero \<open>User\<close>.
\<close>

definition preload_user :: "nat \<Rightarrow> store \<Rightarrow> User" where
  "preload_user userID s =
     (case First (\<lambda>u. u_ID u = userID) (users s) of
        None \<Rightarrow> \<lparr>u_ID = 0, u_Email = [], u_Name = []\<rparr>
      | Some hit \<Rightarrow> snd hit)"

definition UserInfo :: "env \<Rightarrow> string \<Rightarrow> store \<Rightarrow> store \<times> response" where
  "UserInfo e authHeader s =
     (if authHeader = [] then (s, (401, [(''error'', JString ''invalid_request'')]))
      else (let parts = Split authHeader CHR '' '' in
        if length parts \<noteq> 2 \<or> parts ! 0 \<noteq> ''Bearer''
        then (s, (401, [(''error'', JString ''invalid_request'')]))
        else (let token = parts ! 1;
                  s1 = db_log (Select AccessTokens) s
              in (case First (token_live (Now e) token) (access_tokens s) of
                None \<Rightarrow> (s1, (401, [(''error'', JString ''invalid_token'')]))
              | Some hit \<Rightarrow>
                  (let accessToken = snd hit;
                       s2 = db_log (Select Users) s1;
                       user = preload_user (at_UserID accessToken) s
                   in (s2, (200, [(''sub'', JNumber (int (at_UserID accessToken))),
                          (''email'', JString (u_Email user)),
                          (''name'', JString (u_Name user))])))))))"

section \<open>Sequences of requests\<close>

text \<open>
  The requests that reach the store through these handlers, each with the environment it
  runs in, and the store after a list of them, served one after the other.
\<close>

datatype request =
  ConsentReq env "nat option" consent_req
| TokenReq env token_req
| UserInfoReq env string

fun serve :: "request \<Rightarrow> store \<Rightarrow> store \<times> response" where
  "serve (ConsentReq e user_id req) s = AuthorizeConsent e user_id req s"
| "serve (TokenReq e req) s = Token e req s"
| "serve (UserInfoReq e authHeader) s = UserInfo e authHeader s"

fun serve_all :: "request list \<Rightarrow> store \<Rightarrow> store" where
  "serve_all [] s = s"
| "serve_all (r # rs) s = serve_all rs (fst (serve r s))"

text \<open>
  The code has exactly one row in the table, at position \<open>k\<close>. Rows are appended and
  marked, never moved, so the position is stable.
\<close>

definition sole_at :: "string \<Rightarrow> nat \<Rightarrow> OAuthAuthorizationCode list \<Rightarrow> bool" where
  "sole_at c k xs \<longleftrightarrow> k < length xs \<and> (\<forall>j < length xs. ac_Code (xs ! j) = c \<longleftrightarrow> j = k)"

text \<open>How one request changes the table of authorization codes.\<close>

definition codes_step :: "OAuthAuthorizationCode list \<Rightarrow> OAuthAuthorizationCode list \<Rightarrow> bool" where
  "codes_step xs ys \<longleftrightarrow>
     ys = xs
     \<or> (\<exists>r. ys = xs @ [r] \<and> ac_Code r \<notin> set (map ac_Code xs))
     \<or> (\<exists>i < length xs. ys = xs[i := (xs ! i)\<lparr>ac_Used := True\<rparr>])"

section \<open>A sample database and sample requests\<close>

definition app1 :: OAuthClient where
  "app1 = \<lparr>cl_ID = ''app1'', cl_ClientSecret = ''s3cret'', cl_Name = ''App One'',
     cl_RedirectURIs = ''['' @ [CHR 0x22] @ ''https://a/cb'' @ [CHR 0x22] @ '']'', cl_DeletedAt = None\<rparr>"

definition db0 :: store where
  "db0 = \<lparr>clients = [app1], auth_codes = [], access_tokens = [], refresh_tokens = [],
     users = [\<lparr>u_ID = 7, u_Email = ''u@example.org'', u_Name = ''U''\<rparr>], queries = []\<rparr>"

definition at_time :: "time \<Rightarrow> string option \<Rightarrow> string option \<Rightarrow> env" where
  "at_time t r1 r2 = \<lparr>Now = t, Rand1 = r1, Rand2 = r2\<rparr>"

definition consent_app1 :: "bool \<Rightarrow> consent_req" where
  "consent_app1 approved = \<lparr>cr_ClientID = ''app1'', cr_RedirectURI = ''https://a/cb'',
     cr_Scope = ''read write'', cr_State = ''xyz'', cr_Approved = approved\<rparr>"

definition exchange_app1 :: "string \<Rightarrow> token_req" where
  "exchange_app1 code = \<lparr>tr_GrantType = ''authorization_code'', tr_Code = code,
     tr_RedirectURI = ''https://a/cb'', tr_ClientID = ''app1'', tr_ClientSecret = ''s3cret'',
     tr_RefreshToken = []\<rparr>"

definition refresh_app1 :: "string \<Rightarrow> token_req" where
  "refresh_app1 token = \<lparr>tr_GrantType = ''refresh_token'', tr_Code = [],
     tr_RedirectURI = [], tr_ClientID = ''app1'', tr_ClientSecret = ''s3cret'',
     tr_RefreshToken = token\<rparr>"

text \<open>The database after user 7 approved \<open>app1\<close> at time 0 and code \<open>c1\<close> was minted.\<close>

definition db1 :: store where
  "db1 = fst (AuthorizeConsent (at_time 0 (Some ''c1'') None) (Some 7) (consent_app1 True) db0)"

text \<open>The database after \<open>c1\<close> was exchanged one minute later for \<open>a1\<close> and \<open>r1\<close>.\<close>

definition db2 :: store where
  "db2 = fst (Token (at_time Minute (Some ''a1'') (Some ''r1'')) (exchange_app1 ''c1'') db1)"

text \<open>The database after \<open>r1\<close> was refreshed a minute after that for \<open>a2\<close>.\<close>

definition db3 :: store where
  "db3 = fst (Token (at_time (2 * Minute) (Some ''a2'') None) (refresh_app1 ''r1'') db2)"

text \<open>
  Two exchanges of one code whose statements reach the database interleaved: both selects of
  lines 193-194 first, then each request's update and inserts.
\<close>

definition racing_exchanges ::
  "env \<Rightarrow> env \<Rightarrow> string \<Rightarrow> string \<Rightarrow> string \<Rightarrow> store \<Rightarrow> (store \<times> response \<times> response) option" where
  "racing_exchanges eA eB code redirectURI clientID s =
     (let (s1, foundA) = find_auth_code eA code redirectURI clientID s;
          (s2, foundB) = find_auth_code eB code redirectURI clientID s1
      in (case foundA of
            None \<Rightarrow> None
          | Some hitA \<Rightarrow>
              (case foundB of
                 None \<Rightarrow> None
               | Some hitB \<Rightarrow>
                   (let (s3, respA) = issue_tokens eA clientID hitA s2;
                        (s4, respB) = issue_tokens eB clientID hitB s3
                    in Some (s4, respA, respB)))))"

section \<open>Relay side: strings and the standard library\<close>

text \<open>
  Strings are byte sequences, as in Go. \<open>strings.ToLower\<close> is modelled on ASCII letters;
  no other character lower-cases to a letter of \<open>bearer\<close>.
\<close>

definition lower_char :: "char \<Rightarrow> char" where
  "lower_char c =
     (let n = (of_char c :: nat) in if 65 \<le> n \<and> n \<le> 90 then char_of (n + 32) else c)"

definition ToLower :: "string \<Rightarrow> string" where
  "ToLower s = map lower_char s"

fun HasPrefix :: "string \<Rightarrow> string \<Rightarrow> bool" where
  "HasPrefix s [] = True"
| "HasPrefix [] (p # ps) = False"
| "HasPrefix (c # cs) (p # ps) = (c = p \<and> HasPrefix cs ps)"


fun Join :: "string list \<Rightarrow> string \<Rightarrow> string" where
  "Join [] sep = []"
| "Join [x] sep = x"
| "Join (x # y # ys) sep = x @ sep @ Join (y # ys) sep"

text \<open>\<open>fmt.Sprintf("%d", n)\<close> for a length: the decimal digits.\<close>

definition digit_char :: "nat \<Rightarrow> char" where
  "digit_char n = ''0123456789'' ! (n mod 10)"

function Itoa :: "nat \<Rightarrow> string" where
  "Itoa n = (if n < 10 then [digit_char n] else Itoa (n div 10) @ [digit_char n])"
  by pat_completeness auto
termination
  by (relation "measure id") auto

declare Itoa.simps [simp del]

text \<open>\<open>url.QueryEscape\<close>: letters, digits and \<open>-_.~\<close> stay, a space becomes \<open>+\<close>, every other
  byte becomes \<open>%XX\<close>.\<close>

definition unreserved :: "char \<Rightarrow> bool" where
  "unreserved c =
     (let n = (of_char c :: nat) in
      (48 \<le> n \<and> n \<le> 57) \<or> (65 \<le> n \<and> n \<le> 90) \<or> (97 \<le> n \<and> n \<le> 122)
      \<or> c = CHR ''-'' \<or> c = CHR ''_'' \<or> c = CHR ''.'' \<or> c = CHR ''~'')"

definition hex_digit :: "nat \<Rightarrow> char" where
  "hex_digit n = ''0123456789ABCDEF'' ! (n mod 16)"

definition escape_char :: "char \<Rightarrow> string" where
  "escape_char c =
     (if unreserved c then [c]
      else if c = CHR '' '' then ''+''
      else [CHR ''%'', hex_digit ((of_char c :: nat) div 16), hex_digit (of_char c :: nat)])"

definition QueryEscape :: "string \<Rightarrow> string" where
  "QueryEscape s = concat (map escape_char s)"

text \<open>
  \<open>url.Values\<close> and \<open>http.Header\<close> are maps from a key to a list of values, kept as
  association lists with one entry per key. Header keys are in canonical form, as the server
  delivers them and as the source spells them.
\<close>

type_synonym Values = "(string \<times> string list) list"

definition Values_Get :: "Values \<Rightarrow> string \<Rightarrow> string" where
  "Values_Get v key =
     (case map_of v key of None \<Rightarrow> [] | Some vs \<Rightarrow> (case vs of [] \<Rightarrow> [] | x # _ \<Rightarrow> x))"

definition Values_Set :: "Values \<Rightarrow> string \<Rightarrow> string \<Rightarrow> Values" where
  "Values_Set v key val = AList.update key [val] v"

definition Values_Add :: "Values \<Rightarrow> string \<Rightarrow> string \<Rightarrow> Values" where
  "Values_Add v key val =
     AList.update key ((case map_of v key of None \<Rightarrow> [] | Some vs \<Rightarrow> vs) @ [val]) v"


text \<open>Byte-wise order of strings, and the sorted insertion \<open>Values.Encode\<close> needs.\<close>

fun str_less :: "string \<Rightarrow> string \<Rightarrow> bool" where
  "str_less [] [] = False"
| "str_less [] (y # ys) = True"
| "str_less (x # xs) [] = False"
| "str_less (x # xs) (y # ys) =
     ((of_char x :: nat) < of_char y \<or> (x = y \<and> str_less xs ys))"

fun insert_sorted :: "string \<times> 'a \<Rightarrow> (string \<times> 'a) list \<Rightarrow> (string \<times> 'a) list" where
  "insert_sorted e [] = [e]"
| "insert_sorted e (x # xs) =
     (if str_less (fst x) (fst e) then x # insert_sorted e xs else e # x # xs)"

definition sort_keys :: "(string \<times> 'a) list \<Rightarrow> (string \<times> 'a) list" where
  "sort_keys xs = foldr insert_sorted xs []"

definition Values_Encode :: "Values \<Rightarrow> string" where
  "Values_Encode v =
     Join (concat (map (\<lambda>(k, vs). map (\<lambda>x. QueryEscape k @ ''='' @ QueryEscape x) vs)
       (sort_keys v))) ''&''"

text \<open>The fields of \<open>url.URL\<close> that the handlers read and write.\<close>

record URL =
  Scheme :: string
  Opaque :: string
  Host :: string
  Path :: string
  ForceQuery :: bool
  RawQuery :: string
  Fragment :: string

text \<open>
  A Go map from strings to decoded JSON values; \<open>None\<close> is the nil map that decoding
  \<open>null\<close> leaves behind.
\<close>

type_synonym gomap = "(string \<times> json) list option"

text \<open>
  The library functions the relay calls and this repository does not define: \<open>url.Parse\<close>,
  \<open>URL.Query\<close>, \<open>URL.String\<close>, \<open>json.Unmarshal\<close> into a map, \<open>json.Marshal\<close> of a map,
  \<open>base64.StdEncoding.EncodeToString\<close> and the quoting of \<open>%q\<close> (\<open>strconv.Quote\<close>). The
  handlers take them as a parameter; \<open>Inl\<close> is the error of a call.
\<close>

record lib =
  url_Parse :: "string \<Rightarrow> string + URL"
  url_Query :: "URL \<Rightarrow> Values"
  url_String :: "URL \<Rightarrow> string"
  json_Unmarshal :: "string \<Rightarrow> string + gomap"
  json_Marshal :: "gomap \<Rightarrow> string + string"
  base64_Encode :: "string \<Rightarrow> string"
  strconv_Quote :: "string \<Rightarrow> string"

section \<open>main.go\<close>

text \<open>\<open>oauth2.Config\<close> with its endpoint, and the package-level variables of main.go.\<close>

record Config =
  ClientID :: string
  ClientSecret :: string
  RedirectURL :: string
  Scopes :: "string list"
  AuthURL :: string
  TokenURL :: string

record globals =
  oauthConf :: Config
  ebayClientID :: string
  ebayClientSecret :: string
  ebayAPIHost :: string

text \<open>\<open>stateStore\<close>, the map from a state to the caller's redirect URI.\<close>

type_synonym stateStore = "string \<rightharpoonup> string"

text \<open>
  \<open>Config.AuthCodeURL(state, opts...)\<close> of golang.org/x/oauth2: the authorize URL, then the
  encoded parameters.
\<close>

definition AuthCodeURL :: "Config \<Rightarrow> string \<Rightarrow> (string \<times> string) list \<Rightarrow> string" where
  "AuthCodeURL c state opts =
     (let v0 = [(''response_type'', [''code'']), (''client_id'', [ClientID c])];
          v1 = (if RedirectURL c \<noteq> [] then Values_Set v0 ''redirect_uri'' (RedirectURL c) else v0);
          v2 = (if Scopes c \<noteq> [] then Values_Set v1 ''scope'' (Join (Scopes c) '' '') else v1);
          v3 = (if state \<noteq> [] then Values_Set v2 ''state'' state else v2);
          v4 = fold (\<lambda>(k, x) v. Values_Set v k x) opts v3
      in AuthURL c @ (if CHR ''?'' \<in> set (AuthURL c) then ''&'' else ''?'') @ Values_Encode v4)"

definition AccessTypeOffline :: "string \<times> string" where
  "AccessTypeOffline = (''access_type'', ''offline'')"

text \<open>
  What a handler leaves on the wire: a call of \<open>http.Error\<close>, a call of \<open>http.Redirect\<close>, a
  response written by hand (status, headers, body), a panic, or a connection that the
  reverse proxy took over after the upstream answered 101.
\<close>

datatype reply =
  HttpError string nat
| HttpRedirect string nat
| Written nat Values string
| Panic
| SwitchedProtocols

definition handleAuthorize :: "globals \<Rightarrow> Values \<Rightarrow> stateStore \<Rightarrow> stateStore \<times> reply" where
  "handleAuthorize g query st =
     (let openAIRedirectURI = Values_Get query ''redirect_uri'';
          state = Values_Get query ''state''
      in if openAIRedirectURI = [] \<or> state = []
         then (st, HttpError ''Missing required parameters: redirect_uri and state'' 400)
         else (st(state \<mapsto> openAIRedirectURI),
               HttpRedirect (AuthCodeURL (oauthConf g) state [AccessTypeOffline]) 307))"

definition handleCallback :: "lib \<Rightarrow> Values \<Rightarrow> stateStore \<Rightarrow> stateStore \<times> reply" where
  "handleCallback l query st =
     (let code = Values_Get query ''code'';
          state = Values_Get query ''state''
      in if code = [] then (st, HttpError ''Code not found'' 400)
         else (case st state of
           None \<Rightarrow> (st, HttpError ''Invalid state'' 400)
         | Some openAIRedirectURI \<Rightarrow>
             (let st1 = st(state := None) in
              (case url_Parse l openAIRedirectURI of
                Inl err \<Rightarrow> (st1, HttpError ''Invalid redirect_uri'' 500)
              | Inr redirectURL \<Rightarrow>
                  (let q0 = url_Query l redirectURL;
                       q1 = Values_Set q0 ''code'' code;
                       q2 = Values_Set q1 ''state'' state;
                       redirectURL1 = redirectURL\<lparr>RawQuery := Values_Encode q2\<rparr>
                   in (st1, HttpRedirect (url_String l redirectURL1) 307))))))"

text \<open>
  An incoming request, as the handlers read it: \<open>Query\<close> is \<open>r.URL.Query()\<close>, \<open>Form\<close> is
  what \<open>r.ParseForm()\<close> yields (\<open>Inl\<close> is its error), and \<open>RemoteIP\<close> is the host that
  \<open>net.SplitHostPort(r.RemoteAddr)\<close> yields (\<open>None\<close> when the address does not split).
\<close>

record Request =
  Method :: string
  URL_Path :: string
  URL_RawQuery :: string
  Query :: Values
  Header :: Values
  Form :: "string + Values"
  Body :: string
  RemoteIP :: "string option"

text \<open>
  The request sent to the upstream token endpoint, and an upstream response: its status, its
  headers, and its body as \<open>io.ReadAll\<close> returns it (\<open>Inl\<close> is a read error).
\<close>

record token_call =
  tc_Method :: string
  tc_URL :: string
  tc_Header :: Values
  tc_Body :: string

record upstream_response =
  StatusCode :: nat
  up_Header :: Values
  up_Body :: "string + string"

fun copyHeaders :: "Values \<Rightarrow> Values \<Rightarrow> Values" where
  "copyHeaders dst [] = dst"
| "copyHeaders dst ((k, vv) # src) = copyHeaders (fold (\<lambda>v d. Values_Add d k v) vv dst) src"

text \<open>
  Lines 281-297 of \<open>handleToken\<close>: the \<open>token_type\<close> member, when the decoded map has one, is
  set to \<open>"Bearer"\<close>.
\<close>

definition normalize_token_type :: "gomap \<Rightarrow> gomap" where
  "normalize_token_type tokenResponse =
     (case tokenResponse of
        None \<Rightarrow> None
      | Some members \<Rightarrow>
          (case map_of members ''token_type'' of
             None \<Rightarrow> Some members
           | Some original \<Rightarrow> Some (AList.update ''token_type'' (JString ''Bearer'') members)))"

text \<open>Lines 272-317: what is written for an upstream response whose body was read.\<close>

definition relay_token_response :: "lib \<Rightarrow> nat \<Rightarrow> Values \<Rightarrow> string \<Rightarrow> reply" where
  "relay_token_response l status header bodyBytes =
     (if status \<ge> 400 then Written status (copyHeaders [] header) bodyBytes
      else (case json_Unmarshal l bodyBytes of
        Inl err \<Rightarrow> Written status (copyHeaders [] header) bodyBytes
      | Inr tokenResponse \<Rightarrow>
          (case json_Marshal l (normalize_token_type tokenResponse) of
             Inl err \<Rightarrow> Written status (copyHeaders [] header) bodyBytes
           | Inr modifiedBody \<Rightarrow>
               Written status
                 (Values_Set (Values_Set (copyHeaders [] header) ''Content-Type'' ''application/json'')
                    ''Content-Length'' (Itoa (length modifiedBody)))
                 modifiedBody)))"

text \<open>The form sent upstream, lines 208-229; \<open>None\<close> when neither grant applies.\<close>

definition token_form :: "globals \<Rightarrow> Values \<Rightarrow> Values option" where
  "token_form g form =
     (let code = Values_Get form ''code'';
          grantType = Values_Get form ''grant_type'';
          refreshToken = Values_Get form ''refresh_token''
      in if grantType = ''refresh_token'' \<and> refreshToken \<noteq> []
         then Some (Values_Set (Values_Set (Values_Set (Values_Set [] ''grant_type'' ''refresh_token'')
                 ''refresh_token'' refreshToken) ''redirect_uri'' (RedirectURL (oauthConf g)))
                 ''scope'' (Join (Scopes (oauthConf g)) '' ''))
         else if code \<noteq> []
         then Some (Values_Set (Values_Set (Values_Set [] ''grant_type'' ''authorization_code'')
                 ''code'' code) ''redirect_uri'' (RedirectURL (oauthConf g)))
         else None)"

text \<open>
  \<open>handleToken\<close>. \<open>do\<close> is \<open>client.Do\<close>, the round trip to the upstream token endpoint;
  \<open>http.NewRequestWithContext\<close> fails when the token URL does not parse.
\<close>

definition handleToken ::
  "lib \<Rightarrow> globals \<Rightarrow> (token_call \<Rightarrow> string + upstream_response) \<Rightarrow> Request \<Rightarrow> reply" where
  "handleToken l g do r =
     (if Method r \<noteq> ''POST'' then HttpError ''Method not allowed'' 405
      else (case Form r of
        Inl err \<Rightarrow> HttpError ''Failed to parse request body'' 400
      | Inr form \<Rightarrow>
          (case token_form g form of
             None \<Rightarrow> HttpError ''Missing required parameters'' 400
           | Some formData \<Rightarrow>
               (case url_Parse l (TokenURL (oauthConf g)) of
                  Inl err \<Rightarrow> HttpError ''Failed to create proxy request'' 500
                | Inr u \<Rightarrow>
                    (let auth = base64_Encode l (ebayClientID g @ '':'' @ ebayClientSecret g);
                         proxyReq = \<lparr>tc_Method = ''POST'', tc_URL = TokenURL (oauthConf g),
                           tc_Header = Values_Set (Values_Set [] ''Authorization'' (''Basic '' @ auth))
                             ''Content-Type'' ''application/x-www-form-urlencoded'',
                           tc_Body = Values_Encode formData\<rparr>
                     in (case do proxyReq of
                       Inl err \<Rightarrow> HttpError ''Failed to send request to token endpoint'' 502
                     | Inr resp \<Rightarrow>
                         (case up_Body resp of
                            Inl err \<Rightarrow> HttpError ''Failed to read token response'' 500
                          | Inr bodyBytes \<Rightarrow>
                              relay_token_response l (StatusCode resp) (up_Header resp)
                                bodyBytes)))))))"



text \<open>
  What \<open>httputil.ReverseProxy.ServeHTTP\<close> does to the request between the \<open>Director\<close> and
  the transport. The package is not among the sources; these are its steps in the order it
  takes them: the headers named in \<open>Connection\<close> and the hop-by-hop headers are removed,
  \<open>Te: trailers\<close> and a protocol upgrade are put back, the client address is appended to
  \<open>X-Forwarded-For\<close>, and a missing \<open>User-Agent\<close> is set to the empty string.
\<close>

definition is_space :: "char \<Rightarrow> bool" where
  "is_space c \<longleftrightarrow> c = CHR '' '' \<or> c = CHR 0x09 \<or> c = CHR 0x0A \<or> c = CHR 0x0D"

text \<open>\<open>textproto.TrimString\<close>.\<close>

definition TrimString :: "string \<Rightarrow> string" where
  "TrimString s = rev (dropWhile is_space (rev (dropWhile is_space s)))"


definition validHeaderFieldByte :: "char \<Rightarrow> bool" where
  "validHeaderFieldByte c \<longleftrightarrow>
     (let n = (of_char c :: nat) in
      (48 \<le> n \<and> n \<le> 57) \<or> (65 \<le> n \<and> n \<le> 90) \<or> (97 \<le> n \<and> n \<le> 122)
      \<or> c \<in> set [CHR 0x21, CHR 0x23, CHR 0x24, CHR 0x25, CHR 0x26, CHR 0x27, CHR 0x2A, CHR 0x2B,
                  CHR 0x2D, CHR 0x2E, CHR 0x5E, CHR 0x5F, CHR 0x60, CHR 0x7C, CHR 0x7E])"

text \<open>
  \<open>textproto.CanonicalMIMEHeaderKey\<close>: upper case at the start and after each dash, lower
  case elsewhere; a key with a byte that is no header field byte stays as it is.
\<close>

fun canonical :: "bool \<Rightarrow> string \<Rightarrow> string" where
  "canonical upper [] = []"
| "canonical upper (c # cs) =
     (let n = (of_char c :: nat);
          d = (if upper \<and> 97 \<le> n \<and> n \<le> 122 then char_of (n - 32)
               else if \<not> upper \<and> 65 \<le> n \<and> n \<le> 90 then char_of (n + 32)
               else c)
      in d # canonical (d = CHR ''-'') cs)"

definition CanonicalMIMEHeaderKey :: "string \<Rightarrow> string" where
  "CanonicalMIMEHeaderKey s = (if list_all validHeaderFieldByte s then canonical True s else s)"

text \<open>The values of a header, \<open>h[key]\<close>.\<close>

definition header_values :: "Values \<Rightarrow> string \<Rightarrow> string list" where
  "header_values h key = (case map_of h key of None \<Rightarrow> [] | Some vs \<Rightarrow> vs)"

text \<open>The header names that the \<open>Connection\<close> header lists, trimmed, the empty ones left out.\<close>

definition connection_tokens :: "Values \<Rightarrow> string list" where
  "connection_tokens h =
     concat (map (\<lambda>f. filter (\<lambda>sf. sf \<noteq> []) (map TrimString (Split f CHR '','')))
       (header_values h ''Connection''))"









section \<open>An instance of the library\<close>

text \<open>
  The theorems about the relay hold for every value of \<open>lib\<close>. To run the handlers on
  concrete requests, this section gives one: base64 in full; \<open>encoding/json\<close> on documents
  whose numbers are integers and whose strings are ASCII; \<open>net/url\<close> on URLs without user
  information, IPv6 literals and percent escapes. Outside these the instance reports an error
  where the library may succeed.
\<close>

subsection \<open>base64\<close>

definition b64_char :: "nat \<Rightarrow> char" where
  "b64_char n =
     ''ABCDEFGHIJKLMNOPQRSTUVWXYZabcdefghijklmnopqrstuvwxyz0123456789+/'' ! (n mod 64)"

fun b64_encode :: "string \<Rightarrow> string" where
  "b64_encode [] = []"
| "b64_encode [a] =
     (let n = (of_char a :: nat) * 65536
      in [b64_char (n div 262144), b64_char (n div 4096), CHR ''='', CHR ''=''])"
| "b64_encode [a, b] =
     (let n = (of_char a :: nat) * 65536 + of_char b * 256
      in [b64_char (n div 262144), b64_char (n div 4096), b64_char (n div 64), CHR ''=''])"
| "b64_encode (a # b # c # rest) =
     (let n = (of_char a :: nat) * 65536 + of_char b * 256 + of_char c
      in [b64_char (n div 262144), b64_char (n div 4096), b64_char (n div 64), b64_char n]
         @ b64_encode rest)"

subsection \<open>json.Marshal of a map\<close>

definition hex_lower :: "nat \<Rightarrow> char" where
  "hex_lower n = ''0123456789abcdef'' ! (n mod 16)"

definition json_escape_char :: "char \<Rightarrow> string" where
  "json_escape_char c =
     (let n = (of_char c :: nat) in
      if c = CHR 0x22 then [CHR 0x5C, CHR 0x22]
      else if c = CHR 0x5C then [CHR 0x5C, CHR 0x5C]
      else if c = CHR 0x08 then [CHR 0x5C, CHR ''b'']
      else if c = CHR 0x0C then [CHR 0x5C, CHR ''f'']
      else if c = CHR 0x0A then [CHR 0x5C, CHR ''n'']
      else if c = CHR 0x0D then [CHR 0x5C, CHR ''r'']
      else if c = CHR 0x09 then [CHR 0x5C, CHR ''t'']
      else if n < 32 \<or> c = CHR ''<'' \<or> c = CHR ''>'' \<or> c = CHR ''&''
      then [CHR 0x5C, CHR ''u'', CHR ''0'', CHR ''0'', hex_lower (n div 16), hex_lower n]
      else [c])"

definition encode_string :: "string \<Rightarrow> string" where
  "encode_string s = [CHR 0x22] @ concat (map json_escape_char s) @ [CHR 0x22]"

definition encode_int :: "int \<Rightarrow> string" where
  "encode_int i = (if i < 0 then ''-'' @ Itoa (nat (- i)) else Itoa (nat i))"

fun encode_json :: "json \<Rightarrow> string" where
  "encode_json JNull = ''null''"
| "encode_json (JBool b) = (if b then ''true'' else ''false'')"
| "encode_json (JNumber i) = encode_int i"
| "encode_json (JString s) = encode_string s"
| "encode_json (JArray xs) = ''['' @ Join (map encode_json xs) '','' @ '']''"
| "encode_json (JObject kvs) =
     ''{'' @ Join (map snd (sort_keys
                (map (\<lambda>kv. (fst kv, encode_string (fst kv) @ '':'' @ encode_json (snd kv))) kvs)))
              '','' @ ''}''"

definition marshal_map :: "gomap \<Rightarrow> string + string" where
  "marshal_map m = (case m of None \<Rightarrow> Inr ''null'' | Some kvs \<Rightarrow> Inr (encode_json (JObject kvs)))"

subsection \<open>json.Unmarshal into a map\<close>

definition is_ws :: "char \<Rightarrow> bool" where
  "is_ws c \<longleftrightarrow> c = CHR '' '' \<or> c = CHR 0x09 \<or> c = CHR 0x0A \<or> c = CHR 0x0D"

definition skip_ws :: "string \<Rightarrow> string" where
  "skip_ws s = dropWhile is_ws s"

definition is_digit :: "char \<Rightarrow> bool" where
  "is_digit c \<longleftrightarrow> 48 \<le> (of_char c :: nat) \<and> (of_char c :: nat) \<le> 57"

text \<open>The text of a string after its opening quote: the decoded string and what follows.\<close>

fun parse_string :: "string \<Rightarrow> (string \<times> string) option" where
  "parse_string [] = None"
| "parse_string (c # cs) =
     (if c = CHR 0x22 then Some ([], cs)
      else if (of_char c :: nat) < 32 then None
      else if c = CHR 0x5C then
        (case cs of
           [] \<Rightarrow> None
         | e # rest \<Rightarrow>
             (let d = (if e = CHR 0x22 \<or> e = CHR 0x5C \<or> e = CHR ''/'' then Some e
                       else if e = CHR ''b'' then Some (CHR 0x08)
                       else if e = CHR ''f'' then Some (CHR 0x0C)
                       else if e = CHR ''n'' then Some (CHR 0x0A)
                       else if e = CHR ''r'' then Some (CHR 0x0D)
                       else if e = CHR ''t'' then Some (CHR 0x09)
                       else None)
              in (case d of
                    None \<Rightarrow> None
                  | Some x \<Rightarrow>
                      (case parse_string rest of
                         None \<Rightarrow> None
                       | Some (s, after) \<Rightarrow> Some (x # s, after)))))
      else (case parse_string cs of
              None \<Rightarrow> None
            | Some (s, after) \<Rightarrow> Some (c # s, after)))"

definition digits_value :: "string \<Rightarrow> nat" where
  "digits_value ds = foldl (\<lambda>acc d. 10 * acc + ((of_char d :: nat) - 48)) 0 ds"

text \<open>An integer literal; a fraction or an exponent is outside the instance.\<close>

definition parse_number :: "string \<Rightarrow> (json \<times> string) option" where
  "parse_number s =
     (let neg = (s \<noteq> [] \<and> hd s = CHR ''-'');
          t = (if neg then tl s else s);
          ds = takeWhile is_digit t;
          rest = dropWhile is_digit t
      in if ds = [] \<or> (length ds > 1 \<and> hd ds = CHR ''0'') then None
         else if rest \<noteq> [] \<and> (hd rest = CHR ''.'' \<or> hd rest = CHR ''e'' \<or> hd rest = CHR ''E'')
         then None
         else Some (JNumber (if neg then - int (digits_value ds) else int (digits_value ds)), rest))"

fun parse_value :: "nat \<Rightarrow> string \<Rightarrow> (json \<times> string) option"
  and parse_members :: "nat \<Rightarrow> (string \<times> json) list \<Rightarrow> string \<Rightarrow> (json \<times> string) option"
  and parse_elements :: "nat \<Rightarrow> json list \<Rightarrow> string \<Rightarrow> (json \<times> string) option" where
  "parse_value 0 s = None"
| "parse_value (Suc n) s =
     (case skip_ws s of
        [] \<Rightarrow> None
      | c # cs \<Rightarrow>
          if c = CHR ''{'' then
            (case skip_ws cs of
               [] \<Rightarrow> None
             | d # ds \<Rightarrow> if d = CHR ''}'' then Some (JObject [], ds) else parse_members n [] cs)
          else if c = CHR ''['' then
            (case skip_ws cs of
               [] \<Rightarrow> None
             | d # ds \<Rightarrow> if d = CHR '']'' then Some (JArray [], ds) else parse_elements n [] cs)
          else if c = CHR 0x22 then
            (case parse_string cs of None \<Rightarrow> None | Some (x, rest) \<Rightarrow> Some (JString x, rest))
          else if HasPrefix (c # cs) ''true'' then Some (JBool True, drop 4 (c # cs))
          else if HasPrefix (c # cs) ''false'' then Some (JBool False, drop 5 (c # cs))
          else if HasPrefix (c # cs) ''null'' then Some (JNull, drop 4 (c # cs))
          else parse_number (c # cs))"
| "parse_members 0 acc s = None"
| "parse_members (Suc n) acc s =
     (case skip_ws s of
        [] \<Rightarrow> None
      | c # cs \<Rightarrow>
          if c \<noteq> CHR 0x22 then None
          else (case parse_string cs of
            None \<Rightarrow> None
          | Some (k, rest) \<Rightarrow>
              (case skip_ws rest of
                 [] \<Rightarrow> None
               | d # ds \<Rightarrow>
                   if d \<noteq> CHR '':'' then None
                   else (case parse_value n ds of
                     None \<Rightarrow> None
                   | Some (v, rest1) \<Rightarrow>
                       (case skip_ws rest1 of
                          [] \<Rightarrow> None
                        | e # es \<Rightarrow>
                            if e = CHR '','' then parse_members n (AList.update k v acc) es
                            else if e = CHR ''}'' then Some (JObject (AList.update k v acc), es)
                            else None)))))"
| "parse_elements 0 acc s = None"
| "parse_elements (Suc n) acc s =
     (case parse_value n s of
        None \<Rightarrow> None
      | Some (v, rest) \<Rightarrow>
          (case skip_ws rest of
             [] \<Rightarrow> None
           | e # es \<Rightarrow>
               if e = CHR '','' then parse_elements n (acc @ [v]) es
               else if e = CHR '']'' then Some (JArray (acc @ [v]), es)
               else None))"

text \<open>
  Decoding into a \<open>map[string]interface{}\<close>: \<open>null\<close> leaves the nil map, an object fills
  the map, any other document is an error, and so is anything after the document.
\<close>

definition unmarshal_map :: "string \<Rightarrow> string + gomap" where
  "unmarshal_map s =
     (case parse_value (Suc (2 * length s)) s of
        None \<Rightarrow> Inl ''invalid character''
      | Some (v, rest) \<Rightarrow>
          if skip_ws rest \<noteq> [] then Inl ''invalid character after top-level value''
          else (case v of
                  JNull \<Rightarrow> Inr None
                | JObject kvs \<Rightarrow> Inr (Some kvs)
                | _ \<Rightarrow> Inl ''cannot unmarshal into Go value of type map[string]interface {}''))"

subsection \<open>net/url\<close>

fun Cut :: "string \<Rightarrow> char \<Rightarrow> string \<times> string \<times> bool" where
  "Cut [] sep = ([], [], False)"
| "Cut (c # cs) sep =
     (if c = sep then ([], cs, True)
      else (case Cut cs sep of (before, after, found) \<Rightarrow> (c # before, after, found)))"

definition is_letter :: "char \<Rightarrow> bool" where
  "is_letter c \<longleftrightarrow> (let n = (of_char c :: nat) in (65 \<le> n \<and> n \<le> 90) \<or> (97 \<le> n \<and> n \<le> 122))"

fun getScheme :: "nat \<Rightarrow> string \<Rightarrow> string \<Rightarrow> string + (string \<times> string)" where
  "getScheme i rawURL [] = Inr ([], rawURL)"
| "getScheme i rawURL (c # cs) =
     (if is_letter c then getScheme (Suc i) rawURL cs
      else if is_digit c \<or> c = CHR ''+'' \<or> c = CHR ''-'' \<or> c = CHR ''.''
      then (if i = 0 then Inr ([], rawURL) else getScheme (Suc i) rawURL cs)
      else if c = CHR '':''
      then (if i = 0 then Inl ''missing protocol scheme'' else Inr (take i rawURL, cs))
      else Inr ([], rawURL))"

definition is_ctl :: "char \<Rightarrow> bool" where
  "is_ctl c \<longleftrightarrow> (of_char c :: nat) < 32 \<or> (of_char c :: nat) = 127"

definition plain_host_char :: "char \<Rightarrow> bool" where
  "plain_host_char c \<longleftrightarrow> is_letter c \<or> is_digit c \<or> c = CHR ''-'' \<or> c = CHR ''.''"

definition plain_path_char :: "char \<Rightarrow> bool" where
  "plain_path_char c \<longleftrightarrow> unreserved c \<or> c \<in> set ''$&+,/:;=@''"

text \<open>A host with an optional port of digits.\<close>

definition plain_authority :: "string \<Rightarrow> bool" where
  "plain_authority a \<longleftrightarrow>
     (case Cut a CHR '':'' of
        (h, port, found) \<Rightarrow> list_all plain_host_char h \<and> list_all is_digit port)"

definition plain_Parse :: "string \<Rightarrow> string + URL" where
  "plain_Parse rawURL =
     (case Cut rawURL CHR ''#'' of (u, frag, hasFrag) \<Rightarrow>
      if list_ex is_ctl u then Inl ''invalid control character in URL''
      else if \<not> list_all plain_path_char frag then Inl ''outside the instance''
      else (case getScheme 0 u u of
        Inl err \<Rightarrow> Inl err
      | Inr (scheme, rest0) \<Rightarrow>
          (let force = (rest0 \<noteq> [] \<and> last rest0 = CHR ''?'' \<and> count_list rest0 CHR ''?'' = 1);
               rest1 = (if force then butlast rest0 else fst (Cut rest0 CHR ''?''));
               query = (if force then [] else fst (snd (Cut rest0 CHR ''?'')));
               url = \<lparr>Scheme = ToLower scheme, Opaque = [], Host = [], Path = [],
                      ForceQuery = force, RawQuery = query, Fragment = frag\<rparr>
           in if \<not> HasPrefix rest1 ''/'' \<and> scheme \<noteq> [] then Inr (url\<lparr>Opaque := rest1\<rparr>)
              else if \<not> HasPrefix rest1 ''/'' \<and> CHR '':'' \<in> set (fst (Cut rest1 CHR ''/''))
              then Inl ''first path segment in URL cannot contain colon''
              else if (scheme \<noteq> [] \<or> \<not> HasPrefix rest1 ''///'') \<and> HasPrefix rest1 ''//''
              then (case Cut (drop 2 rest1) CHR ''/'' of (authority, after, found) \<Rightarrow>
                      let path = (if found then CHR ''/'' # after else [])
                      in if \<not> plain_authority authority \<or> \<not> list_all plain_path_char path
                         then Inl ''outside the instance''
                         else Inr (url\<lparr>Host := authority, Path := path\<rparr>))
              else if \<not> list_all plain_path_char rest1 then Inl ''outside the instance''
              else Inr (url\<lparr>Path := rest1\<rparr>))))"

definition plain_String :: "URL \<Rightarrow> string" where
  "plain_String u =
     (let s1 = (if Scheme u \<noteq> [] then Scheme u @ '':'' else []);
          s2 = (if Opaque u \<noteq> [] then s1 @ Opaque u
                else (let s3 = (if Scheme u \<noteq> [] \<or> Host u \<noteq> []
                                then s1 @ (if Host u \<noteq> [] \<or> Path u \<noteq> [] then ''//'' else [])
                                       @ Host u
                                else s1);
                          s4 = (if Path u \<noteq> [] \<and> hd (Path u) \<noteq> CHR ''/'' \<and> Host u \<noteq> []
                                then s3 @ ''/'' else s3);
                          s5 = (if s4 = [] \<and> CHR '':'' \<in> set (fst (Cut (Path u) CHR ''/''))
                                then ''./'' else s4)
                      in s5 @ Path u));
          s6 = (if ForceQuery u \<or> RawQuery u \<noteq> [] then s2 @ ''?'' @ RawQuery u else s2)
      in if Fragment u \<noteq> [] then s6 @ ''#'' @ Fragment u else s6)"

text \<open>\<open>url.QueryUnescape\<close> and \<open>URL.Query\<close>, which drops the pairs that do not decode.\<close>

definition unhex :: "char \<Rightarrow> nat option" where
  "unhex c =
     (let n = (of_char c :: nat) in
      if 48 \<le> n \<and> n \<le> 57 then Some (n - 48)
      else if 97 \<le> n \<and> n \<le> 102 then Some (n - 87)
      else if 65 \<le> n \<and> n \<le> 70 then Some (n - 55)
      else None)"

fun QueryUnescape :: "string \<Rightarrow> string option" where
  "QueryUnescape [] = Some []"
| "QueryUnescape (c # cs) =
     (if c = CHR ''%'' then
        (case cs of
           a # b # rest \<Rightarrow>
             (case (unhex a, unhex b, QueryUnescape rest) of
                (Some x, Some y, Some s) \<Rightarrow> Some (char_of (16 * x + y) # s)
              | _ \<Rightarrow> None)
         | _ \<Rightarrow> None)
      else (case QueryUnescape cs of
              None \<Rightarrow> None
            | Some s \<Rightarrow> Some ((if c = CHR ''+'' then CHR '' '' else c) # s)))"

definition add_pair :: "Values \<Rightarrow> string \<Rightarrow> Values" where
  "add_pair v pair =
     (if pair = [] \<or> CHR '';'' \<in> set pair then v
      else (case Cut pair CHR ''='' of (key, val, found) \<Rightarrow>
        (case (QueryUnescape key, QueryUnescape val) of
           (Some k, Some x) \<Rightarrow> Values_Add v k x
         | _ \<Rightarrow> v)))"

definition plain_Query :: "URL \<Rightarrow> Values" where
  "plain_Query u = foldl add_pair [] (Split (RawQuery u) CHR ''&'')"

text \<open>\<open>strconv.Quote\<close> on ASCII; any other byte is written as \<open>\x\<close> and two hex digits.\<close>

definition quote_char :: "char \<Rightarrow> string" where
  "quote_char c =
     (let n = (of_char c :: nat) in
      if c = CHR 0x22 \<or> c = CHR 0x5C then [CHR 0x5C, c]
      else if 32 \<le> n \<and> n \<le> 126 then [c]
      else [CHR 0x5C, CHR ''x'', hex_lower (n div 16), hex_lower n])"

definition plain_Quote :: "string \<Rightarrow> string" where
  "plain_Quote s = [CHR 0x22] @ concat (map quote_char s) @ [CHR 0x22]"

definition stdlib :: lib where
  "stdlib = \<lparr>url_Parse = plain_Parse, url_Query = plain_Query, url_String = plain_String,
     json_Unmarshal = unmarshal_map, json_Marshal = marshal_map, base64_Encode = b64_encode,
     strconv_Quote = plain_Quote\<rparr>"

section \<open>A sample relay configuration\<close>

definition relay :: globals where
  "relay = \<lparr>oauthConf = \<lparr>ClientID = ''ebay-app'', ClientSecret = ''ebay-secret'',
       RedirectURL = ''https://ebayai.dev/callback'',
       Scopes = [''https://api.ebay.com/oauth/api_scope''],
       AuthURL = ''https://auth.ebay.com/oauth2/authorize'',
       TokenURL = ''https://api.ebay.com/identity/v1/oauth2/token''\<rparr>,
     ebayClientID = ''ebay-app'', ebayClientSecret = ''ebay-secret'',
     ebayAPIHost = ''api.ebay.com''\<rparr>"

definition quoted :: "string \<Rightarrow> string" where
  "quoted s = [CHR 0x22] @ s @ [CHR 0x22]"

text \<open>The token response of the upstream, and the same document with \<open>"Bearer"\<close>.\<close>

definition ebay_token_body :: string where
  "ebay_token_body =
     ''{'' @ quoted ''access_token'' @ '':'' @ quoted ''x'' @ '','' @ quoted ''token_type'' @ '':''
       @ quoted ''User Access Token'' @ '','' @ quoted ''expires_in'' @ '':7200}''"

definition bearer_token_body :: string where
  "bearer_token_body =
     ''{'' @ quoted ''access_token'' @ '':'' @ quoted ''x'' @ '','' @ quoted ''token_type'' @ '':''
       @ quoted ''Bearer'' @ '','' @ quoted ''expires_in'' @ '':7200}''"

definition ebay_token_response :: "nat \<Rightarrow> upstream_response" where
  "ebay_token_response status =
     \<lparr>StatusCode = status,
      up_Header = [(''Content-Type'', [''application/json;charset=UTF-8'']),
                   (''Content-Length'', [''71''])],
      up_Body = Inr ebay_token_body\<rparr>"

definition code_exchange_request :: Request where
  "code_exchange_request =
     \<lparr>Method = ''POST'', URL_Path = ''/token'', URL_RawQuery = [], Query = [], Header = [],
      Form = Inr [(''grant_type'', [''authorization_code'']), (''code'', [''abc'']),
                  (''redirect_uri'', [''https://chat.openai.com/aip/cb''])],
      Body = ''grant_type=authorization_code&code=abc'', RemoteIP = Some ''203.0.113.7''\<rparr>"

definition proxy_request :: "string \<Rightarrow> Request" where
  "proxy_request authHeader =
     \<lparr>Method = ''GET'', URL_Path = ''/proxy/sell/inventory/v1/inventory_item'',
      URL_RawQuery = ''limit=2'', Query = [(''limit'', [''2''])],
      Header = [(''Authorization'', [authHeader]), (''Cookie'', [''sid=1''])],
      Form = Inr [], Body = [], RemoteIP = Some ''203.0.113.7''\<rparr>"

text \<open>The same request with a \<open>Connection\<close> header that names \<open>Authorization\<close>.\<close>

definition hop_request :: "string \<Rightarrow> Request" where
  "hop_request authHeader =
     (proxy_request authHeader)\<lparr>Header := [(''Authorization'', [authHeader]),
        (''Connection'', [''Authorization''])]\<rparr>"


text \<open>The bytes the instance writes for the sample response: the members in key order.\<close>

definition relayed_token_body :: string where
  "relayed_token_body =
     ''{'' @ quoted ''access_token'' @ '':'' @ quoted ''x'' @ '','' @ quoted ''expires_in''
       @ '':7200,'' @ quoted ''token_type'' @ '':'' @ quoted ''Bearer'' @ ''}''"

text \<open>The instance with an encoder that fails, to run the fallback of lines 301-308.\<close>

definition failing_encoder :: lib where
  "failing_encoder = stdlib\<lparr>json_Marshal := (\<lambda>m. Inl ''unsupported value'')\<rparr>"

definition authorize_query :: "string \<Rightarrow> string \<Rightarrow> Values" where
  "authorize_query R S = [(''redirect_uri'', [R]), (''state'', [S])]"

definition callback_query :: "string \<Rightarrow> string \<Rightarrow> Values" where
  "callback_query C S = [(''code'', [C]), (''state'', [S])]"

section \<open>The sample database, evaluated\<close>

lemmas handler_defs =
  AuthorizeConsent_def Token_def handleAuthorizationCodeGrant_def handleRefreshTokenGrant_def
  find_client_def find_auth_code_def issue_tokens_def code_matches_def refresh_matches_def
  create_auth_code_def create_access_token_def create_refresh_token_def mark_used_def
  db_log_def bind_consent_def bind_token_def missing_required_def server_error_def
  invalid_grant_def Let_def

lemmas sample_defs =
  db0_def app1_def at_time_def consent_app1_def exchange_app1_def refresh_app1_def
  Minute_def Second_def Hour_def

lemma db1_eq:
  "db1 = db0\<lparr>auth_codes := [\<lparr>ac_Code = ''c1'', ac_ClientID = ''app1'', ac_UserID = 7,
       ac_RedirectURI = ''https://a/cb'', ac_Scope = ''read write'',
       ac_ExpiresAt = 600000000000, ac_Used = False\<rparr>],
     queries := [Insert AuthCodes]\<rparr>"
  by (simp add: db1_def handler_defs sample_defs)

lemma exchange_c1:
  "Token (at_time Minute (Some ''a1'') (Some ''r1'')) (exchange_app1 ''c1'') db1 =
     (db0\<lparr>auth_codes := [\<lparr>ac_Code = ''c1'', ac_ClientID = ''app1'', ac_UserID = 7,
         ac_RedirectURI = ''https://a/cb'', ac_Scope = ''read write'',
         ac_ExpiresAt = 600000000000, ac_Used = True\<rparr>],
       access_tokens := [\<lparr>at_Token = ''a1'', at_ClientID = ''app1'', at_UserID = 7,
         at_Scope = ''read write'', at_ExpiresAt = 3660000000000\<rparr>],
       refresh_tokens := [\<lparr>rt_Token = ''r1'', rt_ClientID = ''app1'', rt_UserID = 7,
         rt_Scope = ''read write'', rt_ExpiresAt = 2592060000000000\<rparr>],
       queries := [Insert AuthCodes, Select Clients, Select AuthCodes, Update AuthCodes,
         Insert AccessTokens, Insert RefreshTokens]\<rparr>,
      (200, [(''access_token'', JString ''a1''), (''token_type'', JString ''Bearer''),
         (''expires_in'', JNumber 3600), (''refresh_token'', JString ''r1''),
         (''scope'', JString ''read write'')]))"
  by (simp add: db1_eq handler_defs sample_defs)

lemma db2_eq:
  "db2 = db0\<lparr>auth_codes := [\<lparr>ac_Code = ''c1'', ac_ClientID = ''app1'', ac_UserID = 7,
         ac_RedirectURI = ''https://a/cb'', ac_Scope = ''read write'',
         ac_ExpiresAt = 600000000000, ac_Used = True\<rparr>],
       access_tokens := [\<lparr>at_Token = ''a1'', at_ClientID = ''app1'', at_UserID = 7,
         at_Scope = ''read write'', at_ExpiresAt = 3660000000000\<rparr>],
       refresh_tokens := [\<lparr>rt_Token = ''r1'', rt_ClientID = ''app1'', rt_UserID = 7,
         rt_Scope = ''read write'', rt_ExpiresAt = 2592060000000000\<rparr>],
       queries := [Insert AuthCodes, Select Clients, Select AuthCodes, Update AuthCodes,
         Insert AccessTokens, Insert RefreshTokens]\<rparr>"
  by (simp add: db2_def exchange_c1)

lemma refresh_r1:
  "Token (at_time (2 * Minute) (Some ''a2'') None) (refresh_app1 ''r1'') db2 =
     (db2\<lparr>access_tokens := access_tokens db2 @ [\<lparr>at_Token = ''a2'', at_ClientID = ''app1'',
         at_UserID = 7, at_Scope = ''read write'', at_ExpiresAt = 3720000000000\<rparr>],
       queries := queries db2 @ [Select Clients, Select RefreshTokens, Insert AccessTokens]\<rparr>,
      (200, [(''access_token'', JString ''a2''), (''token_type'', JString ''Bearer''),
         (''expires_in'', JNumber 3600), (''scope'', JString ''read write'')]))"
  by (simp add: db2_eq handler_defs sample_defs)

lemma consent_c1:
  "AuthorizeConsent (at_time 0 (Some ''c1'') None) (Some 7) (consent_app1 True) db0 =
     (db1, (200, [(''redirect_url'', JString ''https://a/cb?code=c1&state=xyz'')]))"
  by (simp add: db1_eq) (simp add: handler_defs sample_defs)

lemma exchange_c1_db2:
  "Token (at_time Minute (Some ''a1'') (Some ''r1'')) (exchange_app1 ''c1'') db1 =
     (db2, (200, [(''access_token'', JString ''a1''), (''token_type'', JString ''Bearer''),
         (''expires_in'', JNumber 3600), (''refresh_token'', JString ''r1''),
         (''scope'', JString ''read write'')]))"
  by (simp add: exchange_c1 db2_eq)

lemma refresh_r1_db3:
  "Token (at_time (2 * Minute) (Some ''a2'') None) (refresh_app1 ''r1'') db2 =
     (db3, (200, [(''access_token'', JString ''a2''), (''token_type'', JString ''Bearer''),
         (''expires_in'', JNumber 3600), (''scope'', JString ''read write'')]))"
  by (simp add: db3_def refresh_r1)

lemma db3_eq:
  "db3 = db2\<lparr>access_tokens := access_tokens db2 @ [\<lparr>at_Token = ''a2'', at_ClientID = ''app1'',
         at_UserID = 7, at_Scope = ''read write'', at_ExpiresAt = 3720000000000\<rparr>],
       queries := queries db2 @ [Select Clients, Select RefreshTokens, Insert AccessTokens]\<rparr>"
  by (simp add: db3_def refresh_r1)

section \<open>Lookups\<close>

lemma First_SomeD:
  "First P xs = Some (i, r) \<Longrightarrow> i < length xs \<and> xs ! i = r \<and> P r"
proof (induction xs arbitrary: i)
  case Nil
  then show ?case by simp
next
  case (Cons x xs)
  then show ?case
    by (auto split: if_splits option.splits)
qed

lemma First_None_iff: "First P xs = None \<longleftrightarrow> (\<forall>x \<in> set xs. \<not> P x)"
  by (induction xs) (auto split: option.splits)

lemma First_append: "First P xs = Some h \<Longrightarrow> First P (xs @ ys) = Some h"
  by (induction xs arbitrary: h) (auto split: if_splits option.splits)

section \<open>What a successful token request did\<close>

lemma code_grant_success:
  assumes "handleAuthorizationCodeGrant e code ru cid s = (s', (200, b))"
  shows "\<exists>i r a t. First (code_matches (Now e) code cid ru) (auth_codes s) = Some (i, r)
     \<and> Rand1 e = Some a \<and> Rand2 e = Some t
     \<and> auth_codes s' = (auth_codes s)[i := r\<lparr>ac_Used := True\<rparr>]
     \<and> access_tokens s' = access_tokens s @ [\<lparr>at_Token = a, at_ClientID = cid,
           at_UserID = ac_UserID r, at_Scope = ac_Scope r, at_ExpiresAt = Now e + 1 * Hour\<rparr>]
     \<and> refresh_tokens s' = refresh_tokens s @ [\<lparr>rt_Token = t, rt_ClientID = cid,
           rt_UserID = ac_UserID r, rt_Scope = ac_Scope r, rt_ExpiresAt = Now e + 30 * 24 * Hour\<rparr>]
     \<and> b = [(''access_token'', JString a), (''token_type'', JString ''Bearer''),
            (''expires_in'', JNumber 3600), (''refresh_token'', JString t),
            (''scope'', JString (ac_Scope r))]"
  using assms
  unfolding handleAuthorizationCodeGrant_def find_auth_code_def issue_tokens_def
    create_access_token_def create_refresh_token_def mark_used_def db_log_def
    server_error_def invalid_grant_def Let_def
  by (auto split: option.splits if_splits prod.splits dest!: First_SomeD)

lemma refresh_grant_success:
  assumes "handleRefreshTokenGrant e tok cid s = (s', (200, b))"
  shows "\<exists>i r a. First (refresh_matches (Now e) tok cid) (refresh_tokens s) = Some (i, r)
     \<and> Rand1 e = Some a
     \<and> s' = s\<lparr>queries := queries s @ [Select RefreshTokens, Insert AccessTokens],
            access_tokens := access_tokens s @ [\<lparr>at_Token = a, at_ClientID = cid,
              at_UserID = rt_UserID r, at_Scope = rt_Scope r, at_ExpiresAt = Now e + 1 * Hour\<rparr>]\<rparr>
     \<and> b = [(''access_token'', JString a), (''token_type'', JString ''Bearer''),
            (''expires_in'', JNumber 3600), (''scope'', JString (rt_Scope r))]"
  using assms
  unfolding handleRefreshTokenGrant_def create_access_token_def db_log_def
    server_error_def invalid_grant_def Let_def
  by (auto split: option.splits if_splits prod.splits)

lemma token_success:
  assumes "Token e req s = (s', (200, b))"
  shows "bind_token req = []
     \<and> First (\<lambda>c. cl_ID c = tr_ClientID req \<and> cl_ClientSecret c = tr_ClientSecret req
               \<and> cl_DeletedAt c = None) (clients s) \<noteq> None
     \<and> (tr_GrantType req = ''authorization_code''
          \<and> handleAuthorizationCodeGrant e (tr_Code req) (tr_RedirectURI req) (tr_ClientID req)
               (db_log (Select Clients) s) = (s', (200, b))
        \<or> tr_GrantType req = ''refresh_token''
          \<and> handleRefreshTokenGrant e (tr_RefreshToken req) (tr_ClientID req)
               (db_log (Select Clients) s) = (s', (200, b)))"
  using assms unfolding Token_def find_client_def
  by (auto split: if_splits option.splits)

lemma db_log_tables [simp]:
  "clients (db_log c s) = clients s"
  "auth_codes (db_log c s) = auth_codes s"
  "access_tokens (db_log c s) = access_tokens s"
  "refresh_tokens (db_log c s) = refresh_tokens s"
  "users (db_log c s) = users s"
  by (simp_all add: db_log_def)

section \<open>How the tables change\<close>

lemma codes_step_refl: "codes_step xs xs"
  by (simp add: codes_step_def)

lemma consent_codes_step:
  "codes_step (auth_codes s) (auth_codes (fst (AuthorizeConsent e u req s)))"
  unfolding AuthorizeConsent_def create_auth_code_def db_log_def codes_step_def Let_def
  by (auto split: option.splits)

lemma issue_codes_step:
  "i < length (auth_codes s) \<Longrightarrow>
   codes_step (auth_codes s) (auth_codes (fst (issue_tokens e cid (i, r) s)))"
  unfolding issue_tokens_def create_access_token_def create_refresh_token_def mark_used_def
    db_log_def codes_step_def Let_def
  by (auto split: option.splits)

lemma code_grant_codes_step:
  "codes_step (auth_codes s) (auth_codes (fst (handleAuthorizationCodeGrant e c ru cid s)))"
proof (cases "First (code_matches (Now e) c cid ru) (auth_codes s)")
  case None
  then show ?thesis
    by (simp add: handleAuthorizationCodeGrant_def find_auth_code_def codes_step_def)
next
  case (Some hit)
  obtain i r where hit: "hit = (i, r)" by (cases hit)
  with Some have "i < length (auth_codes s)" by (auto dest: First_SomeD)
  then have "codes_step (auth_codes (db_log (Select AuthCodes) s))
     (auth_codes (fst (issue_tokens e cid (i, r) (db_log (Select AuthCodes) s))))"
    by (intro issue_codes_step) simp
  with Some hit show ?thesis
    by (simp add: handleAuthorizationCodeGrant_def find_auth_code_def)
qed

lemma refresh_grant_codes: "auth_codes (fst (handleRefreshTokenGrant e t cid s)) = auth_codes s"
  unfolding handleRefreshTokenGrant_def create_access_token_def db_log_def Let_def
  by (auto split: option.splits)

lemma token_codes_step: "codes_step (auth_codes s) (auth_codes (fst (Token e req s)))"
  unfolding Token_def find_client_def
  using code_grant_codes_step [of "db_log (Select Clients) s" e "tr_Code req"
      "tr_RedirectURI req" "tr_ClientID req"]
  by (auto simp: refresh_grant_codes codes_step_refl split: option.splits)

lemma userinfo_codes: "auth_codes (fst (UserInfo e h s)) = auth_codes s"
  unfolding UserInfo_def db_log_def Let_def
  by (auto split: option.splits)

lemma serve_codes_step: "codes_step (auth_codes s) (auth_codes (fst (serve r s)))"
  by (cases r) (simp_all add: consent_codes_step token_codes_step userinfo_codes codes_step_refl)

lemma codes_step_sole:
  assumes "codes_step xs ys" and "sole_at c k xs"
  shows "sole_at c k ys"
  using assms(1) unfolding codes_step_def
proof (elim disjE exE conjE)
  assume "ys = xs"
  with assms(2) show ?thesis by simp
next
  fix r
  assume ys: "ys = xs @ [r]" and new: "ac_Code r \<notin> set (map ac_Code xs)"
  from assms(2) have k: "k < length xs" "ac_Code (xs ! k) = c"
    by (auto simp: sole_at_def)
  then have "ac_Code r \<noteq> c" using new by auto
  with assms(2) ys show ?thesis
    by (auto simp: sole_at_def nth_append less_Suc_eq)
next
  fix i
  assume "i < length xs" and "ys = xs[i := (xs ! i)\<lparr>ac_Used := True\<rparr>]"
  with assms(2) show ?thesis
    by (auto simp: sole_at_def nth_list_update)
qed

lemma codes_step_used:
  assumes "codes_step xs ys" and "k < length xs" and "ac_Used (xs ! k)"
  shows "ac_Used (ys ! k)"
  using assms unfolding codes_step_def
  by (auto simp: nth_append nth_list_update)

lemma codes_step_expiry:
  assumes "codes_step xs ys" and "k < length xs"
  shows "ac_ExpiresAt (ys ! k) = ac_ExpiresAt (xs ! k)"
  using assms unfolding codes_step_def
  by (auto simp: nth_append nth_list_update)

lemma serve_all_sole:
  "sole_at c k (auth_codes s) \<Longrightarrow> sole_at c k (auth_codes (serve_all rs s))"
proof (induction rs arbitrary: s)
  case Nil
  then show ?case by simp
next
  case (Cons r rs)
  have "sole_at c k (auth_codes (fst (serve r s)))"
    using serve_codes_step Cons.prems by (rule codes_step_sole)
  then show ?case by (simp add: Cons.IH)
qed

lemma serve_all_used:
  "sole_at c k (auth_codes s) \<Longrightarrow> ac_Used (auth_codes s ! k) \<Longrightarrow>
   ac_Used (auth_codes (serve_all rs s) ! k)"
proof (induction rs arbitrary: s)
  case Nil
  then show ?case by simp
next
  case (Cons r rs)
  have k: "k < length (auth_codes s)" using Cons.prems(1) by (simp add: sole_at_def)
  have "sole_at c k (auth_codes (fst (serve r s)))"
    using serve_codes_step Cons.prems(1) by (rule codes_step_sole)
  moreover have "ac_Used (auth_codes (fst (serve r s)) ! k)"
    using serve_codes_step k Cons.prems(2) by (rule codes_step_used)
  ultimately show ?case by (simp add: Cons.IH)
qed

lemma serve_all_expiry:
  "sole_at c k (auth_codes s) \<Longrightarrow>
   ac_ExpiresAt (auth_codes (serve_all rs s) ! k) = ac_ExpiresAt (auth_codes s ! k)"
proof (induction rs arbitrary: s)
  case Nil
  then show ?case by simp
next
  case (Cons r rs)
  have k: "k < length (auth_codes s)" using Cons.prems(1) by (simp add: sole_at_def)
  have "sole_at c k (auth_codes (fst (serve r s)))"
    using serve_codes_step Cons.prems(1) by (rule codes_step_sole)
  moreover have "ac_ExpiresAt (auth_codes (fst (serve r s)) ! k) = ac_ExpiresAt (auth_codes s ! k)"
    using serve_codes_step k by (rule codes_step_expiry)
  ultimately show ?case by (simp add: Cons.IH)
qed

lemma sole_no_match:
  assumes "sole_at c k xs" and "ac_Used (xs ! k) \<or> ac_ExpiresAt (xs ! k) \<le> now"
  shows "First (code_matches now c cid ru) xs = None"
proof -
  have "\<not> code_matches now c cid ru x" if "x \<in> set xs" for x
  proof
    assume m: "code_matches now c cid ru x"
    from that obtain j where j: "j < length xs" "xs ! j = x"
      by (auto simp: in_set_conv_nth)
    from m have "ac_Code (xs ! j) = c" using j by (simp add: code_matches_def)
    with assms(1) j(1) have "j = k" by (simp add: sole_at_def)
    with m j assms(2) show False by (auto simp: code_matches_def)
  qed
  then show ?thesis by (simp add: First_None_iff)
qed

lemma consent_mint:
  assumes "AuthorizeConsent e user req s = (s', (200, b))" and "cr_Approved req"
    and "Rand1 e = Some c"
  shows "\<exists>uid. user = Some uid
     \<and> auth_codes s' = auth_codes s @ [\<lparr>ac_Code = c, ac_ClientID = cr_ClientID req,
          ac_UserID = uid, ac_RedirectURI = cr_RedirectURI req, ac_Scope = cr_Scope req,
          ac_ExpiresAt = Now e + 10 * Minute, ac_Used = False\<rparr>]
     \<and> c \<notin> set (map ac_Code (auth_codes s))"
  using assms unfolding AuthorizeConsent_def create_auth_code_def db_log_def Let_def
  by (auto split: if_splits option.splits)

lemma consent_mint_sole:
  assumes "AuthorizeConsent e user req s = (s', (200, b))" and "cr_Approved req"
    and "Rand1 e = Some c"
  shows "sole_at c (length (auth_codes s)) (auth_codes s')
     \<and> ac_ExpiresAt (auth_codes s' ! length (auth_codes s)) = Now e + 10 * Minute"
proof -
  from consent_mint [OF assms] obtain uid where
    s': "auth_codes s' = auth_codes s @ [\<lparr>ac_Code = c, ac_ClientID = cr_ClientID req,
          ac_UserID = uid, ac_RedirectURI = cr_RedirectURI req, ac_Scope = cr_Scope req,
          ac_ExpiresAt = Now e + 10 * Minute, ac_Used = False\<rparr>]"
    and new: "c \<notin> set (map ac_Code (auth_codes s))"
    by blast
  have "ac_Code (auth_codes s ! j) \<noteq> c" if "j < length (auth_codes s)" for j
    using new that by auto
  then show ?thesis
    by (auto simp: s' sole_at_def nth_append less_Suc_eq)
qed

lemma serve_clients: "clients (fst (serve r s)) = clients s"
proof (cases r)
  case (ConsentReq e u req)
  then show ?thesis
    by (auto simp: AuthorizeConsent_def create_auth_code_def db_log_def Let_def split: option.splits)
next
  case (TokenReq e req)
  have a: "clients (fst (handleAuthorizationCodeGrant e c ru cid s')) = clients s'" for c ru cid s'
    by (auto simp: handleAuthorizationCodeGrant_def find_auth_code_def issue_tokens_def
        create_access_token_def create_refresh_token_def mark_used_def db_log_def Let_def
        server_error_def invalid_grant_def split: option.splits)
  have b: "clients (fst (handleRefreshTokenGrant e t cid s')) = clients s'" for t cid s'
    by (auto simp: handleRefreshTokenGrant_def create_access_token_def db_log_def Let_def
        split: option.splits)
  show ?thesis
    using TokenReq by (auto simp: Token_def find_client_def a b split: option.splits)
next
  case (UserInfoReq e h)
  then show ?thesis
    by (auto simp: UserInfo_def db_log_def Let_def split: option.splits)
qed

lemma serve_all_clients: "clients (serve_all rs s) = clients s"
  by (induction rs arbitrary: s) (simp_all add: serve_clients)

lemma serve_refresh_grows: "\<exists>ys. refresh_tokens (fst (serve r s)) = refresh_tokens s @ ys"
proof (cases r)
  case (ConsentReq e u req)
  then show ?thesis
    by (auto simp: AuthorizeConsent_def create_auth_code_def db_log_def Let_def split: option.splits)
next
  case (TokenReq e req)
  have a: "\<exists>ys. refresh_tokens (fst (handleAuthorizationCodeGrant e c ru cid s'))
      = refresh_tokens s' @ ys" for c ru cid s'
    by (auto simp: handleAuthorizationCodeGrant_def find_auth_code_def issue_tokens_def
        create_access_token_def create_refresh_token_def mark_used_def db_log_def Let_def
        server_error_def invalid_grant_def split: option.splits)
  have b: "refresh_tokens (fst (handleRefreshTokenGrant e t cid s')) = refresh_tokens s'"
    for t cid s'
    by (auto simp: handleRefreshTokenGrant_def create_access_token_def db_log_def Let_def
        split: option.splits)
  show ?thesis
    using TokenReq a [of "tr_Code req" "tr_RedirectURI req" "tr_ClientID req"
        "db_log (Select Clients) s"]
    by (auto simp: Token_def find_client_def b split: option.splits)
next
  case (UserInfoReq e h)
  then show ?thesis
    by (auto simp: UserInfo_def db_log_def Let_def split: option.splits)
qed

lemma serve_all_refresh_grows: "\<exists>ys. refresh_tokens (serve_all rs s) = refresh_tokens s @ ys"
proof (induction rs arbitrary: s)
  case Nil
  then show ?case by simp
next
  case (Cons r rs)
  from serve_refresh_grows [of r s] obtain ys
    where 1: "refresh_tokens (fst (serve r s)) = refresh_tokens s @ ys" by blast
  from Cons.IH [of "fst (serve r s)"] obtain zs
    where 2: "refresh_tokens (serve_all rs (fst (serve r s))) = refresh_tokens (fst (serve r s)) @ zs"
    by blast
  from 1 2 show ?case by simp
qed

section \<open>Consent\<close>

text \<open>
  C9. A consent decision that binds (client id and redirect URI present), comes from an
  authenticated user and has \<open>approved = false\<close> answers 200 with the redirect target
  \<open>redirect_uri?error=access_denied&state=<state>\<close>. The store comes back as it went in:
  no row is added and no statement is logged, so nothing was read or written.
\<close>

theorem consent_denial:
  assumes "cr_ClientID req \<noteq> []" and "cr_RedirectURI req \<noteq> []" and "\<not> cr_Approved req"
  shows "AuthorizeConsent e (Some userID) req s =
     (s, (200, [(''redirect_url'',
        JString (cr_RedirectURI req @ ''?error=access_denied&state='' @ cr_State req))]))"
  using assms by (simp add: AuthorizeConsent_def bind_consent_def missing_required_def)

theorem consent_denial_witness:
  "cr_ClientID (consent_app1 False) \<noteq> [] \<and> cr_RedirectURI (consent_app1 False) \<noteq> []
   \<and> \<not> cr_Approved (consent_app1 False)
   \<and> AuthorizeConsent (at_time 0 (Some ''c1'') None) (Some 7) (consent_app1 False) db0 =
       (db0, (200, [(''redirect_url'', JString ''https://a/cb?error=access_denied&state=xyz'')]))
   \<and> auth_codes db0 = [] \<and> queries db0 = []"
  using consent_denial [of "consent_app1 False" "at_time 0 (Some ''c1'') None" 7 db0]
  by (simp add: consent_app1_def db0_def)

section \<open>Token exchange\<close>

text \<open>
  C8. A successful authorization-code exchange answers with the scope of the code row it
  matched, and the access token and the refresh token it stores carry that scope. A
  successful refresh answers with the scope of the refresh-token row it matched, and the
  access token it stores carries that scope.
\<close>

theorem scope_verbatim:
  assumes "Token e req s = (s', (200, b))"
  shows "(tr_GrantType req = ''authorization_code'' \<longrightarrow>
            (\<exists>i r a t. First (code_matches (Now e) (tr_Code req) (tr_ClientID req)
                            (tr_RedirectURI req)) (auth_codes s) = Some (i, r)
               \<and> map_of b ''scope'' = Some (JString (ac_Scope r))
               \<and> access_tokens s' = access_tokens s @ [a] \<and> at_Scope a = ac_Scope r
               \<and> refresh_tokens s' = refresh_tokens s @ [t] \<and> rt_Scope t = ac_Scope r))
       \<and> (tr_GrantType req = ''refresh_token'' \<longrightarrow>
            (\<exists>i r a. First (refresh_matches (Now e) (tr_RefreshToken req) (tr_ClientID req))
                          (refresh_tokens s) = Some (i, r)
               \<and> map_of b ''scope'' = Some (JString (rt_Scope r))
               \<and> access_tokens s' = access_tokens s @ [a] \<and> at_Scope a = rt_Scope r))"
proof (intro conjI impI)
  assume g: "tr_GrantType req = ''authorization_code''"
  with token_success [OF assms]
  have "handleAuthorizationCodeGrant e (tr_Code req) (tr_RedirectURI req) (tr_ClientID req)
          (db_log (Select Clients) s) = (s', (200, b))"
    by auto
  from code_grant_success [OF this]
  show "\<exists>i r a t. First (code_matches (Now e) (tr_Code req) (tr_ClientID req)
                            (tr_RedirectURI req)) (auth_codes s) = Some (i, r)
               \<and> map_of b ''scope'' = Some (JString (ac_Scope r))
               \<and> access_tokens s' = access_tokens s @ [a] \<and> at_Scope a = ac_Scope r
               \<and> refresh_tokens s' = refresh_tokens s @ [t] \<and> rt_Scope t = ac_Scope r"
    by fastforce
next
  assume g: "tr_GrantType req = ''refresh_token''"
  with token_success [OF assms]
  have "handleRefreshTokenGrant e (tr_RefreshToken req) (tr_ClientID req)
          (db_log (Select Clients) s) = (s', (200, b))"
    by auto
  from refresh_grant_success [OF this]
  show "\<exists>i r a. First (refresh_matches (Now e) (tr_RefreshToken req) (tr_ClientID req))
                          (refresh_tokens s) = Some (i, r)
               \<and> map_of b ''scope'' = Some (JString (rt_Scope r))
               \<and> access_tokens s' = access_tokens s @ [a] \<and> at_Scope a = rt_Scope r"
    by fastforce
qed

theorem scope_verbatim_witness:
  "Token (at_time Minute (Some ''a1'') (Some ''r1'')) (exchange_app1 ''c1'') db1 =
     (db2, (200, [(''access_token'', JString ''a1''), (''token_type'', JString ''Bearer''),
         (''expires_in'', JNumber 3600), (''refresh_token'', JString ''r1''),
         (''scope'', JString ''read write'')]))
   \<and> tr_GrantType (exchange_app1 ''c1'') = ''authorization_code''
   \<and> map (\<lambda>r. (ac_Code r, ac_Scope r)) (auth_codes db1) = [(''c1'', ''read write'')]
   \<and> map at_Scope (access_tokens db2) = [''read write'']
   \<and> map rt_Scope (refresh_tokens db2) = [''read write'']
   \<and> (\<exists>i r a t. First (code_matches Minute ''c1'' ''app1'' ''https://a/cb'') (auth_codes db1)
          = Some (i, r)
        \<and> Some (JString ''read write'') = Some (JString (ac_Scope r))
        \<and> access_tokens db2 = access_tokens db1 @ [a] \<and> at_Scope a = ac_Scope r
        \<and> refresh_tokens db2 = refresh_tokens db1 @ [t] \<and> rt_Scope t = ac_Scope r)
   \<and> fst (snd (Token (at_time (2 * Minute) (Some ''a2'') None) (refresh_app1 ''r1'') db2)) = 200
   \<and> tr_GrantType (refresh_app1 ''r1'') = ''refresh_token''
   \<and> (\<exists>i r a. First (refresh_matches (2 * Minute) ''r1'' ''app1'') (refresh_tokens db2)
          = Some (i, r)
        \<and> Some (JString ''read write'') = Some (JString (rt_Scope r))
        \<and> access_tokens db2 @ [\<lparr>at_Token = ''a2'', at_ClientID = ''app1'', at_UserID = 7,
             at_Scope = ''read write'', at_ExpiresAt = 3720000000000\<rparr>] = access_tokens db2 @ [a]
        \<and> at_Scope a = rt_Scope r)"
proof -
  have g: "tr_GrantType (exchange_app1 ''c1'') = ''authorization_code''"
    by (simp add: exchange_app1_def)
  from scope_verbatim [OF exchange_c1_db2] g
  have 1: "\<exists>i r a t. First (code_matches Minute ''c1'' ''app1'' ''https://a/cb'') (auth_codes db1)
          = Some (i, r)
        \<and> Some (JString ''read write'') = Some (JString (ac_Scope r))
        \<and> access_tokens db2 = access_tokens db1 @ [a] \<and> at_Scope a = ac_Scope r
        \<and> refresh_tokens db2 = refresh_tokens db1 @ [t] \<and> rt_Scope t = ac_Scope r"
    by (simp add: exchange_app1_def at_time_def)
  have g': "tr_GrantType (refresh_app1 ''r1'') = ''refresh_token''"
    by (simp add: refresh_app1_def)
  from scope_verbatim [OF refresh_r1] g'
  have 2: "\<exists>i r a. First (refresh_matches (2 * Minute) ''r1'' ''app1'') (refresh_tokens db2)
          = Some (i, r)
        \<and> Some (JString ''read write'') = Some (JString (rt_Scope r))
        \<and> access_tokens db2 @ [\<lparr>at_Token = ''a2'', at_ClientID = ''app1'', at_UserID = 7,
             at_Scope = ''read write'', at_ExpiresAt = 3720000000000\<rparr>] = access_tokens db2 @ [a]
        \<and> at_Scope a = rt_Scope r"
    by (simp add: refresh_app1_def at_time_def)
  have 3: "map (\<lambda>r. (ac_Code r, ac_Scope r)) (auth_codes db1) = [(''c1'', ''read write'')]
     \<and> map at_Scope (access_tokens db2) = [''read write'']
     \<and> map rt_Scope (refresh_tokens db2) = [''read write'']"
    by (simp add: db1_eq db2_eq db0_def)
  from exchange_c1_db2 g 1 2 3 g' show ?thesis
    by (simp add: refresh_r1)
qed

text \<open>
  C6. A successful refresh leaves the table of refresh tokens (and of authorization codes)
  as it was and answers with exactly \<open>access_token\<close>, \<open>token_type\<close> "Bearer",
  \<open>expires_in\<close> 3600 and \<open>scope\<close>; there is no \<open>refresh_token\<close> member. The row it
  matched stays usable: after any further requests, the same request presented before that
  row's expiry, with a fresh random token, is answered 200 again.
\<close>

theorem refresh_keeps_refresh_token:
  assumes "Token e req s = (s', (200, b))" and "tr_GrantType req = ''refresh_token''"
  shows "refresh_tokens s' = refresh_tokens s \<and> auth_codes s' = auth_codes s
     \<and> map_of b ''refresh_token'' = None
     \<and> (\<exists>i r a. First (refresh_matches (Now e) (tr_RefreshToken req) (tr_ClientID req))
                     (refresh_tokens s) = Some (i, r)
          \<and> b = [(''access_token'', JString a), (''token_type'', JString ''Bearer''),
                 (''expires_in'', JNumber 3600), (''scope'', JString (rt_Scope r))]
          \<and> (\<forall>rs e' a'. Now e' < rt_ExpiresAt r \<and> Rand1 e' = Some a'
                 \<and> a' \<notin> set (map at_Token (access_tokens (serve_all rs s')))
               \<longrightarrow> fst (snd (Token e' req (serve_all rs s'))) = 200
                   \<and> r \<in> set (refresh_tokens (fst (Token e' req (serve_all rs s'))))))"
proof -
  from token_success [OF assms(1)] assms(2)
  have bound: "bind_token req = []"
    and client: "First (\<lambda>c. cl_ID c = tr_ClientID req \<and> cl_ClientSecret c = tr_ClientSecret req
               \<and> cl_DeletedAt c = None) (clients s) \<noteq> None"
    and grant: "handleRefreshTokenGrant e (tr_RefreshToken req) (tr_ClientID req)
               (db_log (Select Clients) s) = (s', (200, b))"
    by auto
  from refresh_grant_success [OF grant] obtain i r a where
    hit: "First (refresh_matches (Now e) (tr_RefreshToken req) (tr_ClientID req))
            (refresh_tokens s) = Some (i, r)"
    and s': "s' = (db_log (Select Clients) s)\<lparr>queries := queries (db_log (Select Clients) s)
                @ [Select RefreshTokens, Insert AccessTokens],
              access_tokens := access_tokens (db_log (Select Clients) s)
                @ [\<lparr>at_Token = a, at_ClientID = tr_ClientID req, at_UserID = rt_UserID r,
                     at_Scope = rt_Scope r, at_ExpiresAt = Now e + 1 * Hour\<rparr>]\<rparr>"
    and b: "b = [(''access_token'', JString a), (''token_type'', JString ''Bearer''),
                 (''expires_in'', JNumber 3600), (''scope'', JString (rt_Scope r))]"
    by auto
  have frame: "refresh_tokens s' = refresh_tokens s" "auth_codes s' = auth_codes s"
    "clients s' = clients s"
    by (simp_all add: s')
  from First_SomeD [OF hit] have r: "r \<in> set (refresh_tokens s)"
    "rt_Token r = tr_RefreshToken req" "rt_ClientID r = tr_ClientID req"
    by (auto simp: refresh_matches_def)
  have again: "fst (snd (Token e' req (serve_all rs s'))) = 200
       \<and> r \<in> set (refresh_tokens (fst (Token e' req (serve_all rs s'))))"
    if live: "Now e' < rt_ExpiresAt r" and rand: "Rand1 e' = Some a'"
      and fresh: "a' \<notin> set (map at_Token (access_tokens (serve_all rs s')))"
    for rs e' a'
  proof -
    let ?s = "serve_all rs s'"
    have "r \<in> set (refresh_tokens ?s)"
      using serve_all_refresh_grows [of rs s'] r(1) frame(1) by auto
    moreover have "refresh_matches (Now e') (tr_RefreshToken req) (tr_ClientID req) r"
      using r live by (simp add: refresh_matches_def)
    ultimately have "First (refresh_matches (Now e') (tr_RefreshToken req) (tr_ClientID req))
        (refresh_tokens ?s) \<noteq> None"
      by (auto simp: First_None_iff)
    moreover have "First (\<lambda>c. cl_ID c = tr_ClientID req \<and> cl_ClientSecret c = tr_ClientSecret req
               \<and> cl_DeletedAt c = None) (clients ?s) \<noteq> None"
      using client by (simp add: serve_all_clients frame)
    ultimately have "fst (snd (Token e' req ?s)) = 200
        \<and> refresh_tokens (fst (Token e' req ?s)) = refresh_tokens ?s"
      using bound assms(2) rand fresh
      by (auto simp: Token_def find_client_def handleRefreshTokenGrant_def
          create_access_token_def Let_def)
    with \<open>r \<in> set (refresh_tokens ?s)\<close> show ?thesis by simp
  qed
  show ?thesis
    using frame(1,2) hit b again by (intro conjI exI [of _ i] exI [of _ r] exI [of _ a]) auto
qed

theorem refresh_keeps_refresh_token_witness:
  "Token (at_time (2 * Minute) (Some ''a2'') None) (refresh_app1 ''r1'') db2 =
     (db3, (200, [(''access_token'', JString ''a2''), (''token_type'', JString ''Bearer''),
         (''expires_in'', JNumber 3600), (''scope'', JString ''read write'')]))
   \<and> tr_GrantType (refresh_app1 ''r1'') = ''refresh_token''
   \<and> refresh_tokens db3 = refresh_tokens db2
   \<and> map rt_Token (refresh_tokens db3) = [''r1'']
   \<and> fst (snd (Token (at_time (3 * Minute) (Some ''a3'') None) (refresh_app1 ''r1'')
         (serve_all [] db3))) = 200"
proof -
  have g: "tr_GrantType (refresh_app1 ''r1'') = ''refresh_token''"
    by (simp add: refresh_app1_def)
  from refresh_keeps_refresh_token [OF refresh_r1_db3 g]
  obtain i r a where frame: "refresh_tokens db3 = refresh_tokens db2"
    and hit: "First (refresh_matches (Now (at_time (2 * Minute) (Some ''a2'') None))
        (tr_RefreshToken (refresh_app1 ''r1'')) (tr_ClientID (refresh_app1 ''r1'')))
        (refresh_tokens db2) = Some (i, r)"
    and again: "\<forall>rs e' a'. Now e' < rt_ExpiresAt r \<and> Rand1 e' = Some a'
                 \<and> a' \<notin> set (map at_Token (access_tokens (serve_all rs db3)))
               \<longrightarrow> fst (snd (Token e' (refresh_app1 ''r1'') (serve_all rs db3))) = 200
                   \<and> r \<in> set (refresh_tokens (fst (Token e' (refresh_app1 ''r1'')
                         (serve_all rs db3))))"
    by blast
  from hit have r: "rt_ExpiresAt r = 2592060000000000"
    by (auto simp: db2_eq db0_def refresh_matches_def sample_defs)
  have "fst (snd (Token (at_time (3 * Minute) (Some ''a3'') None) (refresh_app1 ''r1'')
         (serve_all [] db3))) = 200"
    using again [rule_format, of "at_time (3 * Minute) (Some ''a3'') None" "''a3''" "[]"] r
    by (simp add: db3_eq db2_eq db0_def sample_defs)
  with refresh_r1_db3 g frame show ?thesis
    by (simp add: db2_eq db0_def)
qed

text \<open>
  C3, as the code has it. A token request whose \<open>grant_type\<close>, \<open>client_id\<close> or
  \<open>client_secret\<close> is missing fails with \<open>invalid_request\<close> and the store is untouched
  (nothing is logged). With the three present, a client id and secret that no stored client
  has fail with \<open>invalid_client\<close> after the client lookup alone, whatever the grant type.
  A missing \<open>code\<close> or \<open>refresh_token\<close> is no binding failure: it is looked up like any
  other value, and a lookup without a match fails with \<open>invalid_grant\<close>.
\<close>

theorem token_validation_order:
  "(tr_GrantType req = [] \<or> tr_ClientID req = [] \<or> tr_ClientSecret req = [] \<longrightarrow>
      fst (Token e req s) = s \<and> fst (snd (Token e req s)) = 400
      \<and> field (snd (Token e req s)) ''error'' = Some (JString ''invalid_request''))
   \<and> (tr_GrantType req \<noteq> [] \<and> tr_ClientID req \<noteq> [] \<and> tr_ClientSecret req \<noteq> []
       \<and> (\<forall>c \<in> set (clients s). \<not> (cl_ID c = tr_ClientID req
              \<and> cl_ClientSecret c = tr_ClientSecret req \<and> cl_DeletedAt c = None)) \<longrightarrow>
      Token e req s = (db_log (Select Clients) s, (401, [(''error'', JString ''invalid_client'')])))
   \<and> (tr_ClientID req \<noteq> [] \<and> tr_ClientSecret req \<noteq> []
       \<and> snd (find_client (tr_ClientID req) (tr_ClientSecret req) s) \<noteq> None
       \<and> tr_GrantType req = ''authorization_code''
       \<and> First (code_matches (Now e) (tr_Code req) (tr_ClientID req) (tr_RedirectURI req))
            (auth_codes s) = None \<longrightarrow>
      Token e req s = (db_log (Select AuthCodes) (db_log (Select Clients) s), invalid_grant))
   \<and> (tr_ClientID req \<noteq> [] \<and> tr_ClientSecret req \<noteq> []
       \<and> snd (find_client (tr_ClientID req) (tr_ClientSecret req) s) \<noteq> None
       \<and> tr_GrantType req = ''refresh_token''
       \<and> First (refresh_matches (Now e) (tr_RefreshToken req) (tr_ClientID req))
            (refresh_tokens s) = None \<longrightarrow>
      Token e req s = (db_log (Select RefreshTokens) (db_log (Select Clients) s), invalid_grant))"
proof (intro conjI impI)
  assume "tr_GrantType req = [] \<or> tr_ClientID req = [] \<or> tr_ClientSecret req = []"
  then have "bind_token req \<noteq> []"
    by (auto simp: bind_token_def missing_required_def)
  then show "fst (Token e req s) = s" "fst (snd (Token e req s)) = 400"
    "field (snd (Token e req s)) ''error'' = Some (JString ''invalid_request'')"
    by (simp_all add: Token_def field_def)
next
  assume a: "tr_GrantType req \<noteq> [] \<and> tr_ClientID req \<noteq> [] \<and> tr_ClientSecret req \<noteq> []
       \<and> (\<forall>c \<in> set (clients s). \<not> (cl_ID c = tr_ClientID req
              \<and> cl_ClientSecret c = tr_ClientSecret req \<and> cl_DeletedAt c = None))"
  then have "bind_token req = []"
    by (simp add: bind_token_def missing_required_def)
  moreover from a have "First (\<lambda>c. cl_ID c = tr_ClientID req
       \<and> cl_ClientSecret c = tr_ClientSecret req \<and> cl_DeletedAt c = None) (clients s) = None"
    by (simp add: First_None_iff)
  ultimately show "Token e req s =
      (db_log (Select Clients) s, (401, [(''error'', JString ''invalid_client'')]))"
    by (simp add: Token_def find_client_def)
next
  assume a: "tr_ClientID req \<noteq> [] \<and> tr_ClientSecret req \<noteq> []
       \<and> snd (find_client (tr_ClientID req) (tr_ClientSecret req) s) \<noteq> None
       \<and> tr_GrantType req = ''authorization_code''
       \<and> First (code_matches (Now e) (tr_Code req) (tr_ClientID req) (tr_RedirectURI req))
            (auth_codes s) = None"
  then have "bind_token req = []"
    by (simp add: bind_token_def missing_required_def)
  with a show "Token e req s =
      (db_log (Select AuthCodes) (db_log (Select Clients) s), invalid_grant)"
    by (auto simp: Token_def find_client_def handleAuthorizationCodeGrant_def find_auth_code_def)
next
  assume a: "tr_ClientID req \<noteq> [] \<and> tr_ClientSecret req \<noteq> []
       \<and> snd (find_client (tr_ClientID req) (tr_ClientSecret req) s) \<noteq> None
       \<and> tr_GrantType req = ''refresh_token''
       \<and> First (refresh_matches (Now e) (tr_RefreshToken req) (tr_ClientID req))
            (refresh_tokens s) = None"
  then have "bind_token req = []"
    by (simp add: bind_token_def missing_required_def)
  with a show "Token e req s =
      (db_log (Select RefreshTokens) (db_log (Select Clients) s), invalid_grant)"
    by (auto simp: Token_def find_client_def handleRefreshTokenGrant_def)
qed

theorem token_validation_order_witness:
  "tr_ClientSecret ((exchange_app1 ''c1'')\<lparr>tr_ClientSecret := []\<rparr>) = []
   \<and> fst (Token (at_time 0 None None) ((exchange_app1 ''c1'')\<lparr>tr_ClientSecret := []\<rparr>) db1) = db1
   \<and> field (snd (Token (at_time 0 None None) ((exchange_app1 ''c1'')\<lparr>tr_ClientSecret := []\<rparr>)
        db1)) ''error'' = Some (JString ''invalid_request'')
   \<and> clients db1 = [app1] \<and> cl_ClientSecret app1 \<noteq> ''wrong''
   \<and> Token (at_time 0 None None) ((exchange_app1 ''c1'')\<lparr>tr_ClientSecret := ''wrong''\<rparr>) db1 =
       (db_log (Select Clients) db1, (401, [(''error'', JString ''invalid_client'')]))
   \<and> tr_Code (exchange_app1 []) = []
   \<and> Token (at_time 0 None None) (exchange_app1 []) db1 =
       (db_log (Select AuthCodes) (db_log (Select Clients) db1), invalid_grant)
   \<and> tr_RefreshToken (refresh_app1 []) = []
   \<and> Token (at_time 0 None None) (refresh_app1 []) db2 =
       (db_log (Select RefreshTokens) (db_log (Select Clients) db2), invalid_grant)"
proof -
  let ?e = "at_time 0 None None"
  have 1: "fst (Token ?e ((exchange_app1 ''c1'')\<lparr>tr_ClientSecret := []\<rparr>) db1) = db1
     \<and> field (snd (Token ?e ((exchange_app1 ''c1'')\<lparr>tr_ClientSecret := []\<rparr>) db1)) ''error''
         = Some (JString ''invalid_request'')"
    using token_validation_order [of "(exchange_app1 ''c1'')\<lparr>tr_ClientSecret := []\<rparr>" ?e db1]
    by simp
  have 2: "Token ?e ((exchange_app1 ''c1'')\<lparr>tr_ClientSecret := ''wrong''\<rparr>) db1 =
       (db_log (Select Clients) db1, (401, [(''error'', JString ''invalid_client'')]))"
    using token_validation_order [of "(exchange_app1 ''c1'')\<lparr>tr_ClientSecret := ''wrong''\<rparr>" ?e db1]
    by (simp add: db1_eq db0_def app1_def exchange_app1_def)
  have 3: "Token ?e (exchange_app1 []) db1 =
       (db_log (Select AuthCodes) (db_log (Select Clients) db1), invalid_grant)"
    using token_validation_order [of "exchange_app1 []" ?e db1]
    by (simp add: db1_eq db0_def app1_def exchange_app1_def find_client_def code_matches_def)
  have 4: "Token ?e (refresh_app1 []) db2 =
       (db_log (Select RefreshTokens) (db_log (Select Clients) db2), invalid_grant)"
    using token_validation_order [of "refresh_app1 []" ?e db2]
    by (simp add: db2_eq db0_def app1_def refresh_app1_def find_client_def refresh_matches_def)
  from 1 2 3 4 show ?thesis
    by (simp add: db1_eq db0_def app1_def exchange_app1_def refresh_app1_def)
qed

text \<open>
  C3 as stated fails on a request of grant type \<open>authorization_code\<close> with no code: the
  client is looked up, the code table is searched, and the answer is \<open>invalid_grant\<close>.
\<close>

theorem missing_code_counterexample:
  "tr_GrantType (exchange_app1 []) = ''authorization_code'' \<and> tr_Code (exchange_app1 []) = []
   \<and> Token (at_time 0 None None) (exchange_app1 []) db0 =
       (db0\<lparr>queries := [Select Clients, Select AuthCodes]\<rparr>,
        (400, [(''error'', JString ''invalid_grant'')]))
   \<and> field (snd (Token (at_time 0 None None) (exchange_app1 []) db0)) ''error''
       \<noteq> Some (JString ''invalid_request'')
   \<and> queries (fst (Token (at_time 0 None None) (exchange_app1 []) db0)) \<noteq> queries db0"
  by (simp add: handler_defs sample_defs field_def)

text \<open>
  C1. Take any store, a consent approval that minted code \<open>c\<close> into it, any requests after
  that, and then a successful authorization-code exchange of \<open>c\<close>. After any further
  requests, the same token request is answered \<open>invalid_grant\<close>; the store it leaves
  differs from the one it found by two logged selects only, so no token is minted.
\<close>

theorem code_single_use:
  assumes mint: "AuthorizeConsent e0 user creq s0 = (s1, (200, b0))"
    and approved: "cr_Approved creq" and rand: "Rand1 e0 = Some c"
    and first: "Token e1 treq (serve_all rs1 s1) = (s2, (200, b1))"
    and grant: "tr_GrantType treq = ''authorization_code''" and code: "tr_Code treq = c"
  shows "Token e2 treq (serve_all rs2 s2) =
     (db_log (Select AuthCodes) (db_log (Select Clients) (serve_all rs2 s2)), invalid_grant)"
proof -
  let ?k = "length (auth_codes s0)"
  let ?sA = "serve_all rs1 s1"
  let ?sB = "serve_all rs2 s2"
  from consent_mint_sole [OF mint approved rand]
  have "sole_at c ?k (auth_codes s1)" by simp
  then have soleA: "sole_at c ?k (auth_codes ?sA)" by (rule serve_all_sole)
  from token_success [OF first] grant
  have bound: "bind_token treq = []"
    and client: "First (\<lambda>cl. cl_ID cl = tr_ClientID treq
         \<and> cl_ClientSecret cl = tr_ClientSecret treq \<and> cl_DeletedAt cl = None) (clients ?sA)
         \<noteq> None"
    and ex: "handleAuthorizationCodeGrant e1 (tr_Code treq) (tr_RedirectURI treq)
         (tr_ClientID treq) (db_log (Select Clients) ?sA) = (s2, (200, b1))"
    by auto
  from code_grant_success [OF ex] obtain i r where
    hit: "First (code_matches (Now e1) c (tr_ClientID treq) (tr_RedirectURI treq))
            (auth_codes ?sA) = Some (i, r)"
    and codes2: "auth_codes s2 = (auth_codes ?sA)[i := r\<lparr>ac_Used := True\<rparr>]"
    using code by auto
  from First_SomeD [OF hit] have i: "i < length (auth_codes ?sA)" "auth_codes ?sA ! i = r"
    "ac_Code r = c"
    by (auto simp: code_matches_def)
  with soleA have "i = ?k" by (auto simp: sole_at_def)
  with i codes2 have used2: "ac_Used (auth_codes s2 ! ?k)" by simp
  have s2: "s2 = fst (serve (TokenReq e1 treq) ?sA)" using first by simp
  have sole2: "sole_at c ?k (auth_codes s2)"
    unfolding s2 using serve_codes_step soleA by (rule codes_step_sole)
  have soleB: "sole_at c ?k (auth_codes ?sB)" using sole2 by (rule serve_all_sole)
  have usedB: "ac_Used (auth_codes ?sB ! ?k)" using sole2 used2 by (rule serve_all_used)
  have "clients s2 = clients ?sA" unfolding s2 by (rule serve_clients)
  moreover have "clients ?sB = clients s2" by (rule serve_all_clients)
  ultimately have "clients ?sB = clients ?sA" by simp
  with client have clientB: "First (\<lambda>cl. cl_ID cl = tr_ClientID treq
         \<and> cl_ClientSecret cl = tr_ClientSecret treq \<and> cl_DeletedAt cl = None) (clients ?sB)
         \<noteq> None"
    by simp
  have "First (code_matches (Now e2) c (tr_ClientID treq) (tr_RedirectURI treq))
      (auth_codes ?sB) = None"
    using soleB usedB by (intro sole_no_match) auto
  with bound clientB grant code show ?thesis
    by (auto simp: Token_def find_client_def handleAuthorizationCodeGrant_def find_auth_code_def)
qed

theorem code_single_use_witness:
  "AuthorizeConsent (at_time 0 (Some ''c1'') None) (Some 7) (consent_app1 True) db0 =
     (db1, (200, [(''redirect_url'', JString ''https://a/cb?code=c1&state=xyz'')]))
   \<and> cr_Approved (consent_app1 True)
   \<and> Token (at_time Minute (Some ''a1'') (Some ''r1'')) (exchange_app1 ''c1'') (serve_all [] db1) =
     (db2, (200, [(''access_token'', JString ''a1''), (''token_type'', JString ''Bearer''),
         (''expires_in'', JNumber 3600), (''refresh_token'', JString ''r1''),
         (''scope'', JString ''read write'')]))
   \<and> tr_GrantType (exchange_app1 ''c1'') = ''authorization_code''
   \<and> tr_Code (exchange_app1 ''c1'') = ''c1''
   \<and> Token (at_time (2 * Minute) (Some ''a2'') (Some ''r2'')) (exchange_app1 ''c1'')
       (serve_all [TokenReq (at_time (2 * Minute) (Some ''a2'') None) (refresh_app1 ''r1'')] db2) =
     (db_log (Select AuthCodes) (db_log (Select Clients) db3), invalid_grant)"
proof -
  have ex: "Token (at_time Minute (Some ''a1'') (Some ''r1'')) (exchange_app1 ''c1'')
      (serve_all [] db1) =
     (db2, (200, [(''access_token'', JString ''a1''), (''token_type'', JString ''Bearer''),
         (''expires_in'', JNumber 3600), (''refresh_token'', JString ''r1''),
         (''scope'', JString ''read write'')]))"
    by (simp add: exchange_c1_db2)
  have a: "cr_Approved (consent_app1 True)" by (simp add: consent_app1_def)
  have r: "Rand1 (at_time 0 (Some ''c1'') None) = Some ''c1''" by (simp add: at_time_def)
  have g: "tr_GrantType (exchange_app1 ''c1'') = ''authorization_code''"
    "tr_Code (exchange_app1 ''c1'') = ''c1''"
    by (simp_all add: exchange_app1_def)
  have "serve_all [TokenReq (at_time (2 * Minute) (Some ''a2'') None) (refresh_app1 ''r1'')] db2
      = db3"
    by (simp add: db3_def)
  with code_single_use [OF consent_c1 a r ex g,
      where ?e2.0 = "at_time (2 * Minute) (Some ''a2'') (Some ''r2'')"
        and ?rs2.0 = "[TokenReq (at_time (2 * Minute) (Some ''a2'') None) (refresh_app1 ''r1'')]"]
  have "Token (at_time (2 * Minute) (Some ''a2'') (Some ''r2'')) (exchange_app1 ''c1'')
       (serve_all [TokenReq (at_time (2 * Minute) (Some ''a2'') None) (refresh_app1 ''r1'')] db2) =
     (db_log (Select AuthCodes) (db_log (Select Clients) db3), invalid_grant)"
    by simp
  with consent_c1 a ex g show ?thesis by simp
qed

text \<open>
  C7. A consent approval at time \<open>Now e0\<close> stores the code with an expiry of
  \<open>Now e0 + 10 minutes\<close>, unused. After any requests, an exchange of that code ten minutes
  or more after the approval is answered \<open>invalid_grant\<close>, whatever client and redirect
  URI come with it: by the handler, and by the token endpoint for a client that authenticates.
\<close>

theorem code_expires_after_ten_minutes:
  assumes mint: "AuthorizeConsent e0 user creq s0 = (s1, (200, b0))"
    and approved: "cr_Approved creq" and rand: "Rand1 e0 = Some c"
    and late: "10 * Minute \<le> Now e - Now e0"
  shows "(\<exists>uid. auth_codes s1 = auth_codes s0 @ [\<lparr>ac_Code = c, ac_ClientID = cr_ClientID creq,
            ac_UserID = uid, ac_RedirectURI = cr_RedirectURI creq, ac_Scope = cr_Scope creq,
            ac_ExpiresAt = Now e0 + 600000000000, ac_Used = False\<rparr>])
     \<and> handleAuthorizationCodeGrant e c redirectURI clientID (serve_all rs s1) =
         (db_log (Select AuthCodes) (serve_all rs s1), invalid_grant)
     \<and> (bind_token treq = [] \<and> tr_GrantType treq = ''authorization_code'' \<and> tr_Code treq = c
          \<and> snd (find_client (tr_ClientID treq) (tr_ClientSecret treq) (serve_all rs s1)) \<noteq> None
        \<longrightarrow> Token e treq (serve_all rs s1) =
              (db_log (Select AuthCodes) (db_log (Select Clients) (serve_all rs s1)),
               invalid_grant))"
proof -
  let ?k = "length (auth_codes s0)"
  let ?s = "serve_all rs s1"
  from consent_mint [OF mint approved rand]
  have row: "\<exists>uid. auth_codes s1 = auth_codes s0 @ [\<lparr>ac_Code = c,
            ac_ClientID = cr_ClientID creq,
            ac_UserID = uid, ac_RedirectURI = cr_RedirectURI creq, ac_Scope = cr_Scope creq,
            ac_ExpiresAt = Now e0 + 600000000000, ac_Used = False\<rparr>]"
    by (auto simp: Minute_def Second_def)
  from consent_mint_sole [OF mint approved rand]
  have sole1: "sole_at c ?k (auth_codes s1)"
    and exp1: "ac_ExpiresAt (auth_codes s1 ! ?k) = Now e0 + 10 * Minute"
    by simp_all
  have sole: "sole_at c ?k (auth_codes ?s)" using sole1 by (rule serve_all_sole)
  have "ac_ExpiresAt (auth_codes ?s ! ?k) = Now e0 + 10 * Minute"
    using serve_all_expiry [OF sole1, of rs] exp1 by simp
  with late have expired: "ac_ExpiresAt (auth_codes ?s ! ?k) \<le> Now e" by simp
  have none: "First (code_matches (Now e) c cid ru) (auth_codes ?s) = None" for cid ru
    using sole expired by (intro sole_no_match) auto
  have handler: "handleAuthorizationCodeGrant e c redirectURI clientID ?s =
         (db_log (Select AuthCodes) ?s, invalid_grant)"
    using none by (simp add: handleAuthorizationCodeGrant_def find_auth_code_def)
  have endpoint: "Token e treq ?s =
      (db_log (Select AuthCodes) (db_log (Select Clients) ?s), invalid_grant)"
    if "bind_token treq = [] \<and> tr_GrantType treq = ''authorization_code'' \<and> tr_Code treq = c
          \<and> snd (find_client (tr_ClientID treq) (tr_ClientSecret treq) ?s) \<noteq> None"
    using that none
    by (auto simp: Token_def find_client_def handleAuthorizationCodeGrant_def find_auth_code_def)
  from row handler endpoint show ?thesis by blast
qed

theorem code_expires_after_ten_minutes_witness:
  "AuthorizeConsent (at_time 0 (Some ''c1'') None) (Some 7) (consent_app1 True) db0 =
     (db1, (200, [(''redirect_url'', JString ''https://a/cb?code=c1&state=xyz'')]))
   \<and> cr_Approved (consent_app1 True)
   \<and> 10 * Minute \<le> Now (at_time (10 * Minute) (Some ''a1'') (Some ''r1'')) - 0
   \<and> map (\<lambda>r. (ac_Code r, ac_ExpiresAt r, ac_Used r)) (auth_codes db1)
       = [(''c1'', 600000000000, False)]
   \<and> tr_RedirectURI (exchange_app1 ''c1'') = ''https://a/cb''
   \<and> tr_ClientID (exchange_app1 ''c1'') = ''app1''
   \<and> handleAuthorizationCodeGrant (at_time (10 * Minute) (Some ''a1'') (Some ''r1'')) ''c1''
        ''https://a/cb'' ''app1'' (serve_all [] db1) = (db_log (Select AuthCodes) db1, invalid_grant)
   \<and> Token (at_time (10 * Minute) (Some ''a1'') (Some ''r1'')) (exchange_app1 ''c1'')
        (serve_all [] db1) =
       (db_log (Select AuthCodes) (db_log (Select Clients) db1), invalid_grant)"
proof -
  let ?e = "at_time (10 * Minute) (Some ''a1'') (Some ''r1'')"
  have a: "cr_Approved (consent_app1 True)" by (simp add: consent_app1_def)
  have r: "Rand1 (at_time 0 (Some ''c1'') None) = Some ''c1''" by (simp add: at_time_def)
  have l: "10 * Minute \<le> Now ?e - Now (at_time 0 (Some ''c1'') None)"
    by (simp add: at_time_def)
  note t = code_expires_after_ten_minutes [OF consent_c1 a r l,
      where redirectURI = "''https://a/cb''" and clientID = "''app1''" and rs = "[]"
        and treq = "exchange_app1 ''c1''"]
  have s: "serve_all [] db1 = db1" by simp
  have h1: "handleAuthorizationCodeGrant ?e ''c1'' ''https://a/cb'' ''app1'' (serve_all [] db1) =
          (db_log (Select AuthCodes) db1, invalid_grant)"
    using t unfolding s by blast
  have pre: "bind_token (exchange_app1 ''c1'') = []
     \<and> tr_GrantType (exchange_app1 ''c1'') = ''authorization_code''
     \<and> tr_Code (exchange_app1 ''c1'') = ''c1''
     \<and> snd (find_client (tr_ClientID (exchange_app1 ''c1''))
          (tr_ClientSecret (exchange_app1 ''c1'')) (serve_all [] db1)) \<noteq> None"
    by (simp add: bind_token_def missing_required_def exchange_app1_def find_client_def
        db1_eq db0_def app1_def)
  have h2: "Token ?e (exchange_app1 ''c1'') (serve_all [] db1) =
       (db_log (Select AuthCodes) (db_log (Select Clients) db1), invalid_grant)"
    using t pre unfolding s by blast
  have rows: "map (\<lambda>r. (ac_Code r, ac_ExpiresAt r, ac_Used r)) (auth_codes db1)
       = [(''c1'', 600000000000, False)]"
    by (simp add: db1_eq db0_def)
  have misc: "10 * Minute \<le> Now ?e - 0 \<and> tr_RedirectURI (exchange_app1 ''c1'') = ''https://a/cb''
     \<and> tr_ClientID (exchange_app1 ''c1'') = ''app1''"
    by (simp add: at_time_def exchange_app1_def)
  from consent_c1 a h1 h2 rows misc show ?thesis by blast
qed

text \<open>
  C2, evaluated. Two exchanges of the unused code \<open>c1\<close> whose selects both reach the
  database before either update: each select finds the row unused, and both requests are
  answered 200 with tokens of their own, which the store then holds.
\<close>

theorem racing_exchanges_both_succeed:
  "racing_exchanges (at_time Minute (Some ''a1'') (Some ''r1''))
       (at_time Minute (Some ''a2'') (Some ''r2'')) ''c1'' ''https://a/cb'' ''app1'' db1 =
     Some (db1\<lparr>auth_codes := [\<lparr>ac_Code = ''c1'', ac_ClientID = ''app1'', ac_UserID = 7,
               ac_RedirectURI = ''https://a/cb'', ac_Scope = ''read write'',
               ac_ExpiresAt = 600000000000, ac_Used = True\<rparr>],
             access_tokens := [\<lparr>at_Token = ''a1'', at_ClientID = ''app1'', at_UserID = 7,
               at_Scope = ''read write'', at_ExpiresAt = 3660000000000\<rparr>,
              \<lparr>at_Token = ''a2'', at_ClientID = ''app1'', at_UserID = 7,
               at_Scope = ''read write'', at_ExpiresAt = 3660000000000\<rparr>],
             refresh_tokens := [\<lparr>rt_Token = ''r1'', rt_ClientID = ''app1'', rt_UserID = 7,
               rt_Scope = ''read write'', rt_ExpiresAt = 2592060000000000\<rparr>,
              \<lparr>rt_Token = ''r2'', rt_ClientID = ''app1'', rt_UserID = 7,
               rt_Scope = ''read write'', rt_ExpiresAt = 2592060000000000\<rparr>],
             queries := [Insert AuthCodes, Select AuthCodes, Select AuthCodes,
               Update AuthCodes, Insert AccessTokens, Insert RefreshTokens,
               Update AuthCodes, Insert AccessTokens, Insert RefreshTokens]\<rparr>,
           (200, [(''access_token'', JString ''a1''), (''token_type'', JString ''Bearer''),
              (''expires_in'', JNumber 3600), (''refresh_token'', JString ''r1''),
              (''scope'', JString ''read write'')]),
           (200, [(''access_token'', JString ''a2''), (''token_type'', JString ''Bearer''),
              (''expires_in'', JNumber 3600), (''refresh_token'', JString ''r2''),
              (''scope'', JString ''read write'')]))"
  by (simp add: racing_exchanges_def db1_eq handler_defs sample_defs)

section \<open>The relay: library facts\<close>


lemma set_same: "map_of (Values_Set h k v) k = Some [v]"
  by (simp add: Values_Set_def update_conv')

lemma set_other: "k \<noteq> k' \<Longrightarrow> map_of (Values_Set h k' v) k = map_of h k"
  by (simp add: Values_Set_def update_conv')











lemma digits_value_snoc:
  "digits_value (ds @ [d]) = 10 * digits_value ds + ((of_char d :: nat) - 48)"
  by (simp add: digits_value_def)

lemma digit_char_value: "(of_char (digit_char n) :: nat) - 48 = n mod 10"
proof -
  have "m \<in> {0, 1, 2, 3, 4, 5, 6, 7, 8, 9}" if "m < 10" for m :: nat
    using that by auto
  then have "n mod 10 \<in> {0, 1, 2, 3, 4, 5, 6, 7, 8, 9}" by simp
  then show ?thesis
    unfolding digit_char_def by (elim insertE emptyE) simp_all
qed

text \<open>\<open>Itoa\<close> writes the decimal digits of its argument.\<close>

lemma Itoa_decimal: "digits_value (Itoa n) = n"
proof (induction n rule: Itoa.induct)
  case (1 n)
  show ?case
  proof (cases "n < 10")
    case True
    then show ?thesis
      by (subst Itoa.simps) (simp add: digits_value_def digit_char_value)
  next
    case False
    with 1 have "digits_value (Itoa (n div 10)) = n div 10" by simp
    with False show ?thesis
      by (subst Itoa.simps) (simp add: digits_value_snoc digit_char_value)
  qed
qed

lemma sorted_code_state:
  "sort_keys [(''code'', a), (''state'', b)] = [(''code'', a), (''state'', b)]"
  by (simp add: sort_keys_def)

lemma escape_code_state: "QueryEscape ''code'' = ''code''" "QueryEscape ''state'' = ''state''"
  by (simp_all add: QueryEscape_def escape_char_def unreserved_def)

lemma set_code_state:
  "Values_Set (Values_Set [] ''code'' C) ''state'' S = [(''code'', [C]), (''state'', [S])]"
  by (simp add: Values_Set_def)

lemma encode_code_state:
  "Values_Encode [(''code'', [C]), (''state'', [S])]
     = ''code='' @ QueryEscape C @ ''&state='' @ QueryEscape S"
  unfolding Values_Encode_def sorted_code_state
  by (simp add: escape_code_state)

section \<open>The library instance, evaluated\<close>

lemma parse_cb:
  "plain_Parse ''https://chat.openai.com/aip/cb'' =
     Inr \<lparr>Scheme = ''https'', Opaque = [], Host = ''chat.openai.com'', Path = ''/aip/cb'',
          ForceQuery = False, RawQuery = [], Fragment = []\<rparr>"
  by code_simp

lemma parse_no_scheme: "plain_Parse '':cb'' = Inl ''missing protocol scheme''"
  by code_simp


lemma parse_token_url:
  "plain_Parse ''https://api.ebay.com/identity/v1/oauth2/token'' =
     Inr \<lparr>Scheme = ''https'', Opaque = [], Host = ''api.ebay.com'',
          Path = ''/identity/v1/oauth2/token'', ForceQuery = False, RawQuery = [],
          Fragment = []\<rparr>"
  by code_simp

lemma query_cb:
  "plain_Query \<lparr>Scheme = ''https'', Opaque = [], Host = ''chat.openai.com'', Path = ''/aip/cb'',
          ForceQuery = False, RawQuery = [], Fragment = []\<rparr> = []"
  by code_simp

lemma string_cb:
  "plain_String \<lparr>Scheme = ''https'', Opaque = [], Host = ''chat.openai.com'', Path = ''/aip/cb'',
          ForceQuery = False, RawQuery = ''code=abc&state=xyz'', Fragment = []\<rparr>
     = ''https://chat.openai.com/aip/cb?code=abc&state=xyz''"
  by code_simp

lemma escape_abc_xyz: "QueryEscape ''abc'' = ''abc''" "QueryEscape ''xyz'' = ''xyz''"
  by code_simp+

lemma unmarshal_ebay:
  "unmarshal_map ebay_token_body =
     Inr (Some [(''access_token'', JString ''x''), (''token_type'', JString ''User Access Token''),
                (''expires_in'', JNumber 7200)])"
  by code_simp

lemma unmarshal_bearer:
  "unmarshal_map bearer_token_body =
     Inr (Some [(''access_token'', JString ''x''), (''token_type'', JString ''Bearer''),
                (''expires_in'', JNumber 7200)])"
  by code_simp

lemma unmarshal_relayed:
  "unmarshal_map relayed_token_body =
     Inr (Some [(''access_token'', JString ''x''), (''expires_in'', JNumber 7200),
                (''token_type'', JString ''Bearer'')])"
  by code_simp

lemma unmarshal_not_json: "unmarshal_map ''upstream busy'' = Inl ''invalid character''"
  by code_simp

lemma itoa_60: "Itoa 60 = ''60''"
  by (simp add: Itoa.simps digit_char_def)

lemma encode_int_7200: "encode_int 7200 = ''7200''"
  by (simp add: encode_int_def Itoa.simps digit_char_def)

lemma encode_keys:
  "encode_string ''access_token'' = quoted ''access_token''"
  "encode_string ''token_type'' = quoted ''token_type''"
  "encode_string ''expires_in'' = quoted ''expires_in''"
  "encode_string ''x'' = quoted ''x''"
  "encode_string ''Bearer'' = quoted ''Bearer''"
  by code_simp+

lemma sort_members:
  "sort_keys [(''access_token'', a), (''token_type'', b), (''expires_in'', c)]
     = [(''access_token'', a), (''expires_in'', c), (''token_type'', b)]"
  by (simp add: sort_keys_def)

lemma marshal_bearer:
  "marshal_map (Some [(''access_token'', JString ''x''), (''token_type'', JString ''Bearer''),
                (''expires_in'', JNumber 7200)]) = Inr relayed_token_body"
  by (simp add: marshal_map_def encode_keys encode_int_7200 sort_members relayed_token_body_def)

lemma relayed_length: "length relayed_token_body = 60"
  by (simp add: relayed_token_body_def quoted_def)





lemma hop_request_tokens:
  "map CanonicalMIMEHeaderKey (connection_tokens (Header (hop_request ''Bearer tok123'')))
     = [''Authorization'']"
  by code_simp

section \<open>The relay: claims\<close>




text \<open>
  C4. For an upstream response below 400 whose body decodes to a map with a \<open>token_type\<close>
  member, \<open>handleToken\<close> writes the encoding of that map with \<open>token_type\<close> set to
  \<open>"Bearer"\<close> and every other member as it was, with \<open>Content-Type: application/json\<close> and
  \<open>Content-Length\<close> the decimal length of the body it writes. A response of 400 or above is
  written with the upstream body and copied headers; so is one whose body does not decode,
  and one whose map does not encode. The last conjunct ties \<open>handleToken\<close> to these cases.
\<close>

theorem token_type_normalized:
  "(status < 400 \<and> json_Unmarshal l body = Inr (Some members)
      \<and> map_of members ''token_type'' = Some original
      \<and> json_Marshal l (Some (AList.update ''token_type'' (JString ''Bearer'') members))
           = Inr modified \<longrightarrow>
      (\<exists>h. relay_token_response l status header body = Written status h modified
          \<and> map_of h ''Content-Length'' = Some [Itoa (length modified)]
          \<and> digits_value (Itoa (length modified)) = length modified
          \<and> map_of h ''Content-Type'' = Some [''application/json''])
      \<and> map_of (AList.update ''token_type'' (JString ''Bearer'') members) ''token_type''
           = Some (JString ''Bearer'')
      \<and> (\<forall>k. k \<noteq> ''token_type'' \<longrightarrow>
             map_of (AList.update ''token_type'' (JString ''Bearer'') members) k = map_of members k))
   \<and> (status \<ge> 400 \<longrightarrow>
        relay_token_response l status header body = Written status (copyHeaders [] header) body)
   \<and> (json_Unmarshal l body = Inl err \<longrightarrow>
        relay_token_response l status header body = Written status (copyHeaders [] header) body)
   \<and> (json_Unmarshal l body = Inr m \<and> json_Marshal l (normalize_token_type m) = Inl err \<longrightarrow>
        relay_token_response l status header body = Written status (copyHeaders [] header) body)
   \<and> (Method r = ''POST'' \<and> Form r = Inr form \<and> token_form g form = Some formData
        \<and> url_Parse l (TokenURL (oauthConf g)) = Inr u \<and> up_Body resp = Inr body \<longrightarrow>
        handleToken l g (\<lambda>call. Inr resp) r
          = relay_token_response l (StatusCode resp) (up_Header resp) body)"
proof (intro conjI impI)
  assume a: "status < 400 \<and> json_Unmarshal l body = Inr (Some members)
      \<and> map_of members ''token_type'' = Some original
      \<and> json_Marshal l (Some (AList.update ''token_type'' (JString ''Bearer'') members))
           = Inr modified"
  let ?h = "Values_Set (Values_Set (copyHeaders [] header) ''Content-Type'' ''application/json'')
              ''Content-Length'' (Itoa (length modified))"
  from a have "relay_token_response l status header body = Written status ?h modified"
    by (simp add: relay_token_response_def normalize_token_type_def)
  moreover have "map_of ?h ''Content-Length'' = Some [Itoa (length modified)]"
    by (rule set_same)
  moreover have "map_of ?h ''Content-Type'' = Some [''application/json'']"
    by (simp add: set_other set_same)
  ultimately show "\<exists>h. relay_token_response l status header body = Written status h modified
          \<and> map_of h ''Content-Length'' = Some [Itoa (length modified)]
          \<and> digits_value (Itoa (length modified)) = length modified
          \<and> map_of h ''Content-Type'' = Some [''application/json'']"
    using Itoa_decimal by blast
next
  show "map_of (AList.update ''token_type'' (JString ''Bearer'') members) ''token_type''
           = Some (JString ''Bearer'')"
    by (simp add: update_conv')
next
  show "\<forall>k. k \<noteq> ''token_type'' \<longrightarrow>
      map_of (AList.update ''token_type'' (JString ''Bearer'') members) k = map_of members k"
    by (simp add: update_conv')
next
  assume "400 \<le> status"
  then show "relay_token_response l status header body
      = Written status (copyHeaders [] header) body"
    by (simp add: relay_token_response_def)
next
  assume "json_Unmarshal l body = Inl err"
  then show "relay_token_response l status header body
      = Written status (copyHeaders [] header) body"
    by (simp add: relay_token_response_def)
next
  assume "json_Unmarshal l body = Inr m \<and> json_Marshal l (normalize_token_type m) = Inl err"
  then show "relay_token_response l status header body
      = Written status (copyHeaders [] header) body"
    by (simp add: relay_token_response_def)
next
  assume "Method r = ''POST'' \<and> Form r = Inr form \<and> token_form g form = Some formData
        \<and> url_Parse l (TokenURL (oauthConf g)) = Inr u \<and> up_Body resp = Inr body"
  then show "handleToken l g (\<lambda>call. Inr resp) r
          = relay_token_response l (StatusCode resp) (up_Header resp) body"
    by (simp add: handleToken_def Let_def)
qed

theorem token_type_normalized_witness:
  "json_Unmarshal stdlib ebay_token_body =
     Inr (Some [(''access_token'', JString ''x''), (''token_type'', JString ''User Access Token''),
                (''expires_in'', JNumber 7200)])
   \<and> relay_token_response stdlib 200 (up_Header (ebay_token_response 200)) ebay_token_body =
       Written 200 [(''Content-Type'', [''application/json'']), (''Content-Length'', [''60''])]
         relayed_token_body
   \<and> length relayed_token_body = 60
   \<and> map_of (AList.update ''token_type'' (JString ''Bearer'')
          [(''access_token'', JString ''x''), (''token_type'', JString ''User Access Token''),
           (''expires_in'', JNumber 7200)]) ''expires_in'' = Some (JNumber 7200)
   \<and> (\<exists>A B. unmarshal_map relayed_token_body = Inr (Some A)
          \<and> unmarshal_map bearer_token_body = Inr (Some B) \<and> map_of A = map_of B)
   \<and> relay_token_response stdlib 400 (up_Header (ebay_token_response 400)) ebay_token_body =
       Written 400 (up_Header (ebay_token_response 400)) ebay_token_body
   \<and> relay_token_response stdlib 200 (up_Header (ebay_token_response 200)) ''upstream busy'' =
       Written 200 (up_Header (ebay_token_response 200)) ''upstream busy''
   \<and> relay_token_response failing_encoder 200 (up_Header (ebay_token_response 200))
         ebay_token_body =
       Written 200 (up_Header (ebay_token_response 200)) ebay_token_body
   \<and> handleToken stdlib relay (\<lambda>call. Inr (ebay_token_response 200)) code_exchange_request =
       Written 200 [(''Content-Type'', [''application/json'']), (''Content-Length'', [''60''])]
         relayed_token_body"
proof -
  let ?members = "[(''access_token'', JString ''x''),
      (''token_type'', JString ''User Access Token''), (''expires_in'', JNumber 7200)]"
  let ?hdr = "up_Header (ebay_token_response 200)"
  note t = token_type_normalized
  have hdr: "copyHeaders [] (up_Header (ebay_token_response st)) = up_Header (ebay_token_response st)"
    for st
    by (simp add: ebay_token_response_def Values_Add_def)
  have um: "json_Unmarshal stdlib ebay_token_body = Inr (Some ?members)"
    by (simp add: stdlib_def unmarshal_ebay)
  have tt: "map_of ?members ''token_type'' = Some (JString ''User Access Token'')"
    by simp
  have mm: "json_Marshal stdlib (Some (AList.update ''token_type'' (JString ''Bearer'') ?members))
      = Inr relayed_token_body"
    by (simp add: stdlib_def marshal_bearer)
  have pre: "200 < (400 :: nat) \<and> json_Unmarshal stdlib ebay_token_body = Inr (Some ?members)
      \<and> map_of ?members ''token_type'' = Some (JString ''User Access Token'')
      \<and> json_Marshal stdlib (Some (AList.update ''token_type'' (JString ''Bearer'') ?members))
           = Inr relayed_token_body"
    by (intro conjI um tt mm) simp
  from t [THEN conjunct1, THEN mp, OF pre, of ?hdr]
  obtain h where h: "relay_token_response stdlib 200 ?hdr ebay_token_body
      = Written 200 h relayed_token_body"
    by blast
  have "h = Values_Set (Values_Set (copyHeaders [] ?hdr) ''Content-Type'' ''application/json'')
              ''Content-Length'' (Itoa (length relayed_token_body))"
    using h um tt mm by (simp add: relay_token_response_def normalize_token_type_def)
  then have "h = [(''Content-Type'', [''application/json'']), (''Content-Length'', [''60''])]"
    by (simp add: hdr relayed_length itoa_60) (simp add: ebay_token_response_def Values_Set_def)
  with h have 1: "relay_token_response stdlib 200 ?hdr ebay_token_body =
       Written 200 [(''Content-Type'', [''application/json'']), (''Content-Length'', [''60''])]
         relayed_token_body"
    by simp
  have "map_of [(''access_token'', JString ''x''), (''expires_in'', JNumber 7200),
                (''token_type'', JString ''Bearer'')]
      = map_of [(''access_token'', JString ''x''), (''token_type'', JString ''Bearer''),
                (''expires_in'', JNumber 7200)]"
    by (rule ext) simp
  then have 2: "\<exists>A B. unmarshal_map relayed_token_body = Inr (Some A)
          \<and> unmarshal_map bearer_token_body = Inr (Some B) \<and> map_of A = map_of B"
    using unmarshal_relayed unmarshal_bearer by blast
  have 3: "relay_token_response stdlib 400 (up_Header (ebay_token_response 400)) ebay_token_body =
       Written 400 (up_Header (ebay_token_response 400)) ebay_token_body"
    using t [where status = 400 and l = stdlib and body = ebay_token_body
        and header = "up_Header (ebay_token_response 400)"]
    by (simp add: hdr)
  have "json_Unmarshal stdlib ''upstream busy'' = Inl ''invalid character''"
    by (simp add: stdlib_def unmarshal_not_json)
  then have 4: "relay_token_response stdlib 200 ?hdr ''upstream busy'' =
       Written 200 ?hdr ''upstream busy''"
    using t [where status = 200 and l = stdlib and body = "''upstream busy''"
        and header = ?hdr and err = "''invalid character''"]
    by (simp add: hdr)
  have "json_Unmarshal failing_encoder ebay_token_body = Inr (Some ?members)
      \<and> json_Marshal failing_encoder (normalize_token_type (Some ?members))
          = Inl ''unsupported value''"
    by (simp add: failing_encoder_def stdlib_def unmarshal_ebay)
  then have 5: "relay_token_response failing_encoder 200 ?hdr ebay_token_body =
       Written 200 ?hdr ebay_token_body"
    using t [where status = 200 and l = failing_encoder and body = ebay_token_body
        and header = ?hdr and m = "Some ?members" and err = "''unsupported value''"]
    by (simp add: hdr)
  have form: "token_form relay [(''grant_type'', [''authorization_code'']), (''code'', [''abc'']),
                  (''redirect_uri'', [''https://chat.openai.com/aip/cb''])]
      = Some [(''grant_type'', [''authorization_code'']), (''code'', [''abc'']),
              (''redirect_uri'', [''https://ebayai.dev/callback''])]"
    by (simp add: token_form_def Values_Get_def Values_Set_def relay_def)
  have url: "url_Parse stdlib (TokenURL (oauthConf relay)) =
     Inr \<lparr>Scheme = ''https'', Opaque = [], Host = ''api.ebay.com'',
          Path = ''/identity/v1/oauth2/token'', ForceQuery = False, RawQuery = [],
          Fragment = []\<rparr>"
    using parse_token_url by (simp add: stdlib_def relay_def)
  have "handleToken stdlib relay (\<lambda>call. Inr (ebay_token_response 200)) code_exchange_request
      = relay_token_response stdlib (StatusCode (ebay_token_response 200)) ?hdr ebay_token_body"
    using t [where r = code_exchange_request and g = relay and l = stdlib
        and resp = "ebay_token_response 200" and body = ebay_token_body] form url
    by (simp add: code_exchange_request_def ebay_token_response_def)
  with 1 have 6: "handleToken stdlib relay (\<lambda>call. Inr (ebay_token_response 200))
      code_exchange_request =
       Written 200 [(''Content-Type'', [''application/json'']), (''Content-Length'', [''60''])]
         relayed_token_body"
    by (simp add: ebay_token_response_def)
  have 7: "map_of (AList.update ''token_type'' (JString ''Bearer'') ?members) ''expires_in''
      = Some (JNumber 7200)"
    using t [THEN conjunct1, THEN mp, OF pre, of ?hdr] by simp
  from um 1 relayed_length 2 3 4 5 6 7 show ?thesis by blast
qed

text \<open>
  C5, as the code has it. After \<open>handleAuthorize\<close> for a non-empty redirect URI \<open>R\<close> and a
  non-empty state \<open>S\<close>, the store maps \<open>S\<close> to \<open>R\<close>. A callback with state \<open>S\<close> and no code is
  answered \<open>Code not found\<close> (400) and leaves the entry in place. A callback with a non-empty
  code \<open>C\<close> removes the entry, whether or not \<open>R\<close> parses. When \<open>R\<close> does not parse, that
  callback is answered \<open>Invalid redirect_uri\<close> (500). When \<open>R\<close> parses, it redirects (307) to
  \<open>R\<close> with its query parameters \<open>code\<close> and \<open>state\<close> set to \<open>C\<close> and \<open>S\<close> and re-encoded; for
  an \<open>R\<close> without query parameters the new query is \<open>code=<C>&state=<S>\<close>, both escaped. The
  same callback once more is answered \<open>Invalid state\<close> (400).
\<close>

theorem relay_state_round_trip:
  assumes "Values_Get q1 ''redirect_uri'' = R" and "Values_Get q1 ''state'' = S"
    and "R \<noteq> []" and "S \<noteq> []"
    and "Values_Get q2 ''code'' = C" and "Values_Get q2 ''state'' = S"
  shows "handleAuthorize g q1 st =
       (st(S \<mapsto> R), HttpRedirect (AuthCodeURL (oauthConf g) S [AccessTypeOffline]) 307)
     \<and> (C = [] \<longrightarrow>
          handleCallback l q2 (st(S \<mapsto> R)) = (st(S \<mapsto> R), HttpError ''Code not found'' 400))
     \<and> (C \<noteq> [] \<longrightarrow>
          fst (handleCallback l q2 (st(S \<mapsto> R))) = st(S := None)
          \<and> (\<forall>err. url_Parse l R = Inl err \<longrightarrow>
                handleCallback l q2 (st(S \<mapsto> R))
                  = (st(S := None), HttpError ''Invalid redirect_uri'' 500))
          \<and> (\<forall>u. url_Parse l R = Inr u \<longrightarrow>
                handleCallback l q2 (st(S \<mapsto> R)) =
                  (st(S := None),
                   HttpRedirect (url_String l (u\<lparr>RawQuery :=
                     Values_Encode (Values_Set (Values_Set (url_Query l u) ''code'' C)
                       ''state'' S)\<rparr>)) 307)
                \<and> (url_Query l u = [] \<longrightarrow>
                      Values_Encode (Values_Set (Values_Set (url_Query l u) ''code'' C) ''state'' S)
                        = ''code='' @ QueryEscape C @ ''&state='' @ QueryEscape S))
          \<and> handleCallback l q2 (st(S := None))
              = (st(S := None), HttpError ''Invalid state'' 400))"
proof (intro conjI allI impI)
  show "handleAuthorize g q1 st =
       (st(S \<mapsto> R), HttpRedirect (AuthCodeURL (oauthConf g) S [AccessTypeOffline]) 307)"
    using assms by (simp add: handleAuthorize_def Let_def)
next
  assume "C = []"
  then show "handleCallback l q2 (st(S \<mapsto> R))
      = (st(S \<mapsto> R), HttpError ''Code not found'' 400)"
    using assms by (simp add: handleCallback_def Let_def)
next
  assume "C \<noteq> []"
  then show "fst (handleCallback l q2 (st(S \<mapsto> R))) = st(S := None)"
    using assms by (simp add: handleCallback_def Let_def split: sum.splits)
next
  fix err
  assume "C \<noteq> []" and "url_Parse l R = Inl err"
  then show "handleCallback l q2 (st(S \<mapsto> R))
      = (st(S := None), HttpError ''Invalid redirect_uri'' 500)"
    using assms by (simp add: handleCallback_def Let_def)
next
  fix u
  assume "C \<noteq> []" and "url_Parse l R = Inr u"
  then show "handleCallback l q2 (st(S \<mapsto> R)) =
      (st(S := None),
       HttpRedirect (url_String l (u\<lparr>RawQuery :=
         Values_Encode (Values_Set (Values_Set (url_Query l u) ''code'' C) ''state'' S)\<rparr>)) 307)"
    using assms by (simp add: handleCallback_def Let_def)
next
  fix u
  assume "url_Query l u = []"
  then show "Values_Encode (Values_Set (Values_Set (url_Query l u) ''code'' C) ''state'' S)
                   = ''code='' @ QueryEscape C @ ''&state='' @ QueryEscape S"
    by (simp only: set_code_state encode_code_state)
next
  assume "C \<noteq> []"
  then show "handleCallback l q2 (st(S := None))
      = (st(S := None), HttpError ''Invalid state'' 400)"
    using assms by (simp add: handleCallback_def Let_def)
qed

theorem relay_state_round_trip_witness:
  "Values_Get (authorize_query ''https://chat.openai.com/aip/cb'' ''xyz'') ''redirect_uri''
      = ''https://chat.openai.com/aip/cb''
   \<and> Values_Get (authorize_query ''https://chat.openai.com/aip/cb'' ''xyz'') ''state'' = ''xyz''
   \<and> Values_Get (callback_query ''abc'' ''xyz'') ''code'' = ''abc''
   \<and> Values_Get (callback_query ''abc'' ''xyz'') ''state'' = ''xyz''
   \<and> fst (handleAuthorize relay (authorize_query ''https://chat.openai.com/aip/cb'' ''xyz'')
           Map.empty) = [''xyz'' \<mapsto> ''https://chat.openai.com/aip/cb'']
   \<and> handleCallback stdlib (callback_query ''abc'' ''xyz'')
        [''xyz'' \<mapsto> ''https://chat.openai.com/aip/cb'']
       = (Map.empty, HttpRedirect ''https://chat.openai.com/aip/cb?code=abc&state=xyz'' 307)
   \<and> handleCallback stdlib (callback_query ''abc'' ''xyz'') Map.empty
       = (Map.empty, HttpError ''Invalid state'' 400)
   \<and> Values_Get (callback_query [] ''xyz'') ''code'' = []
   \<and> handleCallback stdlib (callback_query [] ''xyz'')
        [''xyz'' \<mapsto> ''https://chat.openai.com/aip/cb'']
       = ([''xyz'' \<mapsto> ''https://chat.openai.com/aip/cb''], HttpError ''Code not found'' 400)
   \<and> url_Parse stdlib '':cb'' = Inl ''missing protocol scheme''
   \<and> handleCallback stdlib (callback_query ''abc'' ''xyz'') [''xyz'' \<mapsto> '':cb'']
       = (Map.empty, HttpError ''Invalid redirect_uri'' 500)"
proof -
  let ?R = "''https://chat.openai.com/aip/cb''"
  let ?u = "\<lparr>Scheme = ''https'', Opaque = [], Host = ''chat.openai.com'', Path = ''/aip/cb'',
          ForceQuery = False, RawQuery = [], Fragment = []\<rparr>"
  have q1: "Values_Get (authorize_query R ''xyz'') ''redirect_uri'' = R"
    "Values_Get (authorize_query R ''xyz'') ''state'' = ''xyz''" for R
    by (simp_all add: authorize_query_def Values_Get_def)
  have q2: "Values_Get (callback_query C ''xyz'') ''code'' = C"
    "Values_Get (callback_query C ''xyz'') ''state'' = ''xyz''" for C
    by (simp_all add: callback_query_def Values_Get_def)
  have ne: "?R \<noteq> []" "''xyz'' \<noteq> []" "''abc'' \<noteq> []" "'':cb'' \<noteq> []" by simp_all
  note t = relay_state_round_trip [OF q1 [of ?R] ne(1,2) q2 [of "''abc''"],
      where g = relay and st = Map.empty and l = stdlib]
  note t0 = relay_state_round_trip [OF q1 [of ?R] ne(1,2) q2 [of "[]"],
      where g = relay and st = Map.empty and l = stdlib]
  note tb = relay_state_round_trip [OF q1 [of "'':cb''"] ne(4,2) q2 [of "''abc''"],
      where g = relay and st = Map.empty and l = stdlib]
  have parse: "url_Parse stdlib ?R = Inr ?u"
    using parse_cb by (simp add: stdlib_def)
  have query: "url_Query stdlib ?u = []"
    using query_cb by (simp add: stdlib_def)
  have bad: "url_Parse stdlib '':cb'' = Inl ''missing protocol scheme''"
    using parse_no_scheme by (simp add: stdlib_def)
  from t have a: "fst (handleAuthorize relay (authorize_query ?R ''xyz'') Map.empty)
      = [''xyz'' \<mapsto> ?R]"
    by simp
  from t parse have c: "handleCallback stdlib (callback_query ''abc'' ''xyz'') [''xyz'' \<mapsto> ?R] =
        (Map.empty, HttpRedirect (url_String stdlib (?u\<lparr>RawQuery :=
          Values_Encode (Values_Set (Values_Set (url_Query stdlib ?u) ''code'' ''abc'')
            ''state'' ''xyz'')\<rparr>)) 307)"
    by simp
  from t parse query have d: "Values_Encode (Values_Set (Values_Set (url_Query stdlib ?u)
      ''code'' ''abc'') ''state'' ''xyz'') = ''code='' @ QueryEscape ''abc'' @ ''&state=''
        @ QueryEscape ''xyz''"
    by blast
  have e: "handleCallback stdlib (callback_query ''abc'' ''xyz'') [''xyz'' \<mapsto> ?R]
      = (Map.empty, HttpRedirect ''https://chat.openai.com/aip/cb?code=abc&state=xyz'' 307)"
    unfolding c d escape_abc_xyz using string_cb by (simp add: stdlib_def)
  from t have f: "handleCallback stdlib (callback_query ''abc'' ''xyz'') Map.empty
       = (Map.empty, HttpError ''Invalid state'' 400)"
    by simp
  from t0 have g: "handleCallback stdlib (callback_query [] ''xyz'') [''xyz'' \<mapsto> ?R]
       = ([''xyz'' \<mapsto> ?R], HttpError ''Code not found'' 400)"
    by simp
  from tb bad have h: "handleCallback stdlib (callback_query ''abc'' ''xyz'') [''xyz'' \<mapsto> '':cb'']
       = (Map.empty, HttpError ''Invalid redirect_uri'' 500)"
    by simp
  from q1 [of ?R] q2 [of "''abc''"] q2 [of "[]"] a e f g bad h show ?thesis by blast
qed

text \<open>
  C5 as stated fails in two ways. A callback without a code is answered \<open>Code not found\<close>
  (400) and leaves the entry in the store. A stored redirect URI that does not parse, here
  \<open>:cb\<close>, makes the callback answer \<open>Invalid redirect_uri\<close> (500), no redirect.
\<close>

theorem relay_callback_counterexample:
  "snd (handleCallback stdlib (callback_query [] ''xyz'')
         (fst (handleAuthorize relay (authorize_query ''https://chat.openai.com/aip/cb'' ''xyz'')
            Map.empty)))
     = HttpError ''Code not found'' 400
   \<and> fst (handleCallback stdlib (callback_query [] ''xyz'')
         (fst (handleAuthorize relay (authorize_query ''https://chat.openai.com/aip/cb'' ''xyz'')
            Map.empty))) ''xyz''
     = Some ''https://chat.openai.com/aip/cb''
   \<and> snd (handleCallback stdlib (callback_query ''abc'' ''xyz'')
         (fst (handleAuthorize relay (authorize_query '':cb'' ''xyz'') Map.empty)))
     = HttpError ''Invalid redirect_uri'' 500"
proof -
  have p: "url_Parse stdlib '':cb'' = Inl ''missing protocol scheme''"
    using parse_no_scheme by (simp add: stdlib_def)
  show ?thesis
    by (simp add: handleCallback_def handleAuthorize_def callback_query_def authorize_query_def
        Values_Get_def Let_def p)
qed


end
